theory Spec2Isabelle
  imports Complex_Main
begin

section \<open>Data model\<close>

text \<open>
  A Python exception: the name of its class and its message. Only subclasses of
  \<^verbatim>\<open>Exception\<close> are modelled (the two handlers of \<^verbatim>\<open>app.py\<close> are both
  \<^verbatim>\<open>except Exception\<close>). Messages of the exceptions that the interpreter raises are
  written without their quotation marks.
\<close>

datatype exn = Exn (exn_class: string) (exn_str: string)

text \<open>
  One row of the lap table. \<^verbatim>\<open>LapTime\<close> is a pandas timedelta, an integer number of
  nanoseconds, or \<^verbatim>\<open>NaT\<close> (here \<open>None\<close>); \<^verbatim>\<open>Position\<close> is nullable as well.
  \<^verbatim>\<open>IsPersonalBest\<close> is the provider's flag on the laps that were the driver's best
  lap when they were set; a lap whose time was deleted keeps its time and is not flagged.
\<close>

record lap =
  Driver :: string
  LapNumber :: int
  LapTime :: "int option"
  IsPersonalBest :: bool
  Position :: "int option"
  Compound :: string

text \<open>
  One telemetry sample. The \<^verbatim>\<open>Brake\<close> channel is boolean in the provider's series
  and integer after \<^verbatim>\<open>astype(int)\<close>, so the record is polymorphic in it.
\<close>

record 'b sample =
  Distance :: rat
  Speed :: rat
  Throttle :: rat
  Brake :: 'b
  nGear :: int
  RPM :: int

type_synonym telemetry = "bool sample list"

text \<open>A plotted value: an integer, a float (as an exact rational), or a gap.\<close>

datatype cell = CInt int | CNum rat | CNull

text \<open>
  The loaded session: its lap table, and the two calls of the telemetry provider that
  \<^verbatim>\<open>app.py\<close> makes on a lap (\<^verbatim>\<open>Lap.get_telemetry()\<close>) and on a telemetry series
  (\<^verbatim>\<open>Telemetry.add_distance()\<close>). Both belong to the external library, so they are
  fields of the session; either may raise.
\<close>

record session =
  laps :: "lap list"
  get_telemetry :: "lap \<Rightarrow> exn + telemetry"
  add_distance :: "telemetry \<Rightarrow> exn + telemetry"

section \<open>Data selection\<close>

text \<open>\<^verbatim>\<open>laps.pick_drivers(d)\<close>: the rows of driver \<open>d\<close>, in table order.\<close>

definition pick_drivers :: "string \<Rightarrow> lap list \<Rightarrow> lap list" where
  "pick_drivers d ls = filter (\<lambda>l. Driver l = d) ls"

text \<open>
  \<^verbatim>\<open>Series.idxmin()\<close> on the lap-time column: the first row holding the least non-null
  lap time, and no row when every lap time is null.
\<close>

fun idxmin :: "lap list \<Rightarrow> lap option" where
  "idxmin [] = None"
| "idxmin (l # ls) =
     (case LapTime l of
        None \<Rightarrow> idxmin ls
      | Some t \<Rightarrow>
          (case idxmin ls of
             None \<Rightarrow> Some l
           | Some m \<Rightarrow>
               (case LapTime m of
                  None \<Rightarrow> Some l
                | Some u \<Rightarrow> if u < t then Some m else Some l)))"

text \<open>
  \<^verbatim>\<open>Laps.pick_fastest()\<close> is a call into the telemetry library, whose code is not part
  of the repository; \<^verbatim>\<open>app.py\<close> calls it without argument. It is modelled as the
  library behaves on that call: it keeps the laps flagged \<^verbatim>\<open>IsPersonalBest\<close>; if none
  is left, or none of them has a lap time, it returns \<^verbatim>\<open>None\<close>; otherwise it returns
  the row that \<^verbatim>\<open>idxmin\<close> of their lap times names.
\<close>

definition pick_fastest :: "lap list \<Rightarrow> lap option" where
  "pick_fastest ls =
     (let pb = filter IsPersonalBest ls
      in if pb = [] then None
         else if list_all (\<lambda>l. LapTime l = None) pb then None
         else idxmin pb)"

text \<open>
  \<^verbatim>\<open>x.get_telemetry()\<close> on the value returned by \<^verbatim>\<open>pick_fastest\<close>: attribute access
  on \<^verbatim>\<open>None\<close> raises \<^verbatim>\<open>AttributeError\<close>; on a lap it is the provider's call.
\<close>

definition call_get_telemetry :: "session \<Rightarrow> lap option \<Rightarrow> exn + telemetry" where
  "call_get_telemetry s x =
     (case x of
        None \<Rightarrow> Inl (Exn ''AttributeError'' ''NoneType object has no attribute get_telemetry'')
      | Some l \<Rightarrow> get_telemetry s l)"

text \<open>
  \<^verbatim>\<open>get_telemetry_data(session)\<close>, statement by statement: both fastest laps are
  picked, then Verstappen's telemetry is fetched, then Hamilton's, then both lap slices
  are taken. The function has no \<^verbatim>\<open>raise\<close> and no handler of its own.
\<close>

definition get_telemetry_data ::
  "session \<Rightarrow> exn + (telemetry \<times> telemetry \<times> lap list \<times> lap list)" where
  "get_telemetry_data s =
     (let ver_fastest = pick_fastest (pick_drivers ''VER'' (laps s));
          ham_fastest = pick_fastest (pick_drivers ''HAM'' (laps s))
      in case call_get_telemetry s ver_fastest of
           Inl e \<Rightarrow> Inl e
         | Inr ver_tel \<Rightarrow>
             (case call_get_telemetry s ham_fastest of
                Inl e \<Rightarrow> Inl e
              | Inr ham_tel \<Rightarrow>
                  Inr (ver_tel, ham_tel,
                       pick_drivers ''VER'' (laps s), pick_drivers ''HAM'' (laps s))))"

section \<open>Chart descriptions\<close>

text \<open>
  The declarative figure of the charting library, reduced to what \<^verbatim>\<open>app.py\<close> sets:
  the traces in the order they were added, the overlays (a shaded vertical region, a
  vertical line) in the order they were added, and the layout properties. Titles are kept
  without their leading pictograph; the template, the font size, the outline and the
  hover text of the bars, and the opacity and dash of the overlays are left out.
\<close>

datatype trace =
  Scatter (sc_x: "cell list") (sc_y: "cell list") (sc_mode: string) (sc_name: string)
          (sc_color: string) (sc_width: int) (sc_marker_size: "int option")
| Bar (bar_x: "int list") (bar_y: "int list") (bar_base: int) (bar_orientation: string)
      (bar_name: string) (bar_color: string)

datatype overlay =
  VRect int int string string
| VLine int string string string

record layout =
  title :: string
  xaxis_title :: string
  yaxis_title :: string
  yaxis_autorange :: "string option"
  yaxis_tickvals :: "int list"
  yaxis_ticktext :: "string list"
  hovermode :: "string option"
  height :: int
  showlegend :: bool

record figure =
  data :: "trace list"
  overlays :: "overlay list"
  fig_layout :: "layout option"

definition go_Figure :: figure where
  "go_Figure = \<lparr>data = [], overlays = [], fig_layout = None\<rparr>"

definition add_trace :: "trace \<Rightarrow> figure \<Rightarrow> figure" where
  "add_trace t fig = fig\<lparr>data := data fig @ [t]\<rparr>"

definition add_vrect :: "int \<Rightarrow> int \<Rightarrow> string \<Rightarrow> string \<Rightarrow> figure \<Rightarrow> figure" where
  "add_vrect x0 x1 annotation_text fillcolor fig =
     fig\<lparr>overlays := overlays fig @ [VRect x0 x1 annotation_text fillcolor]\<rparr>"

definition add_vline :: "int \<Rightarrow> string \<Rightarrow> string \<Rightarrow> string \<Rightarrow> figure \<Rightarrow> figure" where
  "add_vline x line_color annotation_text annotation_position fig =
     fig\<lparr>overlays := overlays fig @ [VLine x line_color annotation_text annotation_position]\<rparr>"

definition update_layout :: "layout \<Rightarrow> figure \<Rightarrow> figure" where
  "update_layout lo fig = fig\<lparr>fig_layout := Some lo\<rparr>"

text \<open>The layout of the distance charts and of the lap-time charts.\<close>

definition plain_layout :: "string \<Rightarrow> string \<Rightarrow> string \<Rightarrow> int \<Rightarrow> layout" where
  "plain_layout t xt yt h =
     \<lparr>title = t, xaxis_title = xt, yaxis_title = yt, yaxis_autorange = None,
      yaxis_tickvals = [], yaxis_ticktext = [], hovermode = Some ''x unified'',
      height = h, showlegend = True\<rparr>"

section \<open>Telemetry chart builders\<close>

definition create_speed_chart :: "telemetry \<Rightarrow> telemetry \<Rightarrow> figure" where
  "create_speed_chart ver_tel ham_tel =
     update_layout
       (plain_layout ''Speed vs Distance - Fastest Lap Comparison''
          ''Distance (m)'' ''Speed (km/h)'' 500)
       (add_trace
          (Scatter (map (CNum \<circ> Distance) ham_tel) (map (CNum \<circ> Speed) ham_tel)
             ''lines'' ''Hamilton'' ''#3498DB'' 3 None)
          (add_trace
             (Scatter (map (CNum \<circ> Distance) ver_tel) (map (CNum \<circ> Speed) ver_tel)
                ''lines'' ''Verstappen'' ''#E74C3C'' 3 None)
             go_Figure))"

definition create_throttle_chart :: "telemetry \<Rightarrow> telemetry \<Rightarrow> figure" where
  "create_throttle_chart ver_tel ham_tel =
     update_layout
       (plain_layout ''Throttle Application vs Distance''
          ''Distance (m)'' ''Throttle (%)'' 500)
       (add_trace
          (Scatter (map (CNum \<circ> Distance) ham_tel) (map (CNum \<circ> Throttle) ham_tel)
             ''lines'' ''Hamilton'' ''#2ECC71'' 3 None)
          (add_trace
             (Scatter (map (CNum \<circ> Distance) ver_tel) (map (CNum \<circ> Throttle) ver_tel)
                ''lines'' ''Verstappen'' ''#FF6B35'' 3 None)
             go_Figure))"

text \<open>
  \<^verbatim>\<open>Series.astype(int)\<close> on the boolean brake column: \<^verbatim>\<open>True\<close> becomes 1 and
  \<^verbatim>\<open>False\<close> becomes 0, element by element.
\<close>

definition astype_int :: "bool list \<Rightarrow> int list" where
  "astype_int col = map (\<lambda>b. if b then 1 else 0) col"

text \<open>\<^verbatim>\<open>df['Brake'] = column\<close>: the rows keep their other channels.\<close>

definition set_Brake :: "'a sample list \<Rightarrow> 'b list \<Rightarrow> 'b sample list" where
  "set_Brake tel col =
     map (\<lambda>(r, c). \<lparr>Distance = Distance r, Speed = Speed r, Throttle = Throttle r,
                     Brake = c, nGear = nGear r, RPM = RPM r\<rparr>) (zip tel col)"

text \<open>The traces and layout that \<^verbatim>\<open>create_brake_chart\<close> builds from its two copies.\<close>

definition brake_figure :: "int sample list \<Rightarrow> int sample list \<Rightarrow> figure" where
  "brake_figure ver_tel_copy ham_tel_copy =
     update_layout
       (plain_layout ''Brake Application vs Distance''
          ''Distance (m)'' ''Brake (On/Off)'' 500)
       (add_trace
          (Scatter (map (CNum \<circ> Distance) ham_tel_copy) (map (CInt \<circ> Brake) ham_tel_copy)
             ''lines'' ''Hamilton'' ''#1ABC9C'' 3 None)
          (add_trace
             (Scatter (map (CNum \<circ> Distance) ver_tel_copy) (map (CInt \<circ> Brake) ver_tel_copy)
                ''lines'' ''Verstappen'' ''#9B59B6'' 3 None)
             go_Figure))"

text \<open>
  \<^verbatim>\<open>create_brake_chart\<close>: both series are copied, the brake channel of each copy is
  replaced by its integer cast, and the copies are plotted.
\<close>

definition create_brake_chart :: "telemetry \<Rightarrow> telemetry \<Rightarrow> figure" where
  "create_brake_chart ver_tel ham_tel =
     (let ver_tel_copy = set_Brake ver_tel (astype_int (map Brake ver_tel));
          ham_tel_copy = set_Brake ham_tel (astype_int (map Brake ham_tel))
      in brake_figure ver_tel_copy ham_tel_copy)"

definition create_gear_chart :: "telemetry \<Rightarrow> telemetry \<Rightarrow> figure" where
  "create_gear_chart ver_tel ham_tel =
     update_layout
       (plain_layout ''Gear Usage vs Distance'' ''Distance (m)'' ''Gear Number'' 500)
       (add_trace
          (Scatter (map (CNum \<circ> Distance) ham_tel) (map (CInt \<circ> nGear) ham_tel)
             ''lines'' ''Hamilton'' ''#3498DB'' 3 None)
          (add_trace
             (Scatter (map (CNum \<circ> Distance) ver_tel) (map (CInt \<circ> nGear) ver_tel)
                ''lines'' ''Verstappen'' ''#E74C3C'' 3 None)
             go_Figure))"

definition create_rpm_chart :: "telemetry \<Rightarrow> telemetry \<Rightarrow> figure" where
  "create_rpm_chart ver_tel ham_tel =
     update_layout
       (plain_layout ''RPM vs Distance'' ''Distance (m)'' ''RPM'' 500)
       (add_trace
          (Scatter (map (CNum \<circ> Distance) ham_tel) (map (CInt \<circ> RPM) ham_tel)
             ''lines'' ''Hamilton'' ''#3498DB'' 3 None)
          (add_trace
             (Scatter (map (CNum \<circ> Distance) ver_tel) (map (CInt \<circ> RPM) ver_tel)
                ''lines'' ''Verstappen'' ''#E74C3C'' 3 None)
             go_Figure))"

section \<open>Lap-time chart builders\<close>

text \<open>
  The cleaned lap table carries one more column, \<^verbatim>\<open>LapTime_s\<close>.
\<close>

record lap_s = lap +
  LapTime_s :: cell

text \<open>
  \<^verbatim>\<open>Timedelta.total_seconds()\<close>: nanoseconds to seconds (a float in the source, an exact
  rational here). On the column, \<^verbatim>\<open>.dt.total_seconds()\<close> maps a missing duration to a
  missing number.
\<close>

definition total_seconds :: "int \<Rightarrow> rat" where
  "total_seconds ns = of_int ns / 1000000000"

definition dt_total_seconds :: "int option \<Rightarrow> cell" where
  "dt_total_seconds t = (case t of None \<Rightarrow> CNull | Some ns \<Rightarrow> CNum (total_seconds ns))"

text \<open>\<^verbatim>\<open>df[df['LapTime'].notnull()]\<close>: the rows whose lap time is present.\<close>

definition notnull_LapTime :: "lap list \<Rightarrow> lap list" where
  "notnull_LapTime ls = filter (\<lambda>l. LapTime l \<noteq> None) ls"

text \<open>\<^verbatim>\<open>df['LapTime_s'] = df['LapTime'].dt.total_seconds()\<close> on a copy.\<close>

definition set_LapTime_s :: "lap list \<Rightarrow> lap_s list" where
  "set_LapTime_s ls =
     map (\<lambda>l. \<lparr>Driver = Driver l, LapNumber = LapNumber l, LapTime = LapTime l,
               IsPersonalBest = IsPersonalBest l,
               Position = Position l, Compound = Compound l,
               LapTime_s = dt_total_seconds (LapTime l)\<rparr>) ls"

text \<open>
  The two statements that both lap-time builders run on each driver's laps: filter,
  then convert.
\<close>

definition laps_clean :: "lap list \<Rightarrow> lap_s list" where
  "laps_clean ls = set_LapTime_s (notnull_LapTime ls)"

definition laptime_trace :: "lap_s list \<Rightarrow> string \<Rightarrow> string \<Rightarrow> int \<Rightarrow> int \<Rightarrow> trace" where
  "laptime_trace ls nm col w m =
     Scatter (map (CInt \<circ> LapNumber) ls) (map LapTime_s ls) ''lines+markers'' nm col w (Some m)"

text \<open>The figure that \<^verbatim>\<open>create_laptime_chart\<close> builds from its two cleaned tables.\<close>

definition laptime_figure :: "lap_s list \<Rightarrow> lap_s list \<Rightarrow> figure" where
  "laptime_figure ver_laps_clean ham_laps_clean =
     update_layout
       (plain_layout ''Lap Time Evolution Throughout the Race''
          ''Lap Number'' ''Lap Time (seconds)'' 600)
       (add_vline 58 ''lime'' ''Final Lap'' ''top right''
          (add_vrect 53 56 ''Safety Car'' ''yellow''
             (add_trace (laptime_trace ham_laps_clean ''Hamilton'' ''#3498DB'' 3 6)
                (add_trace (laptime_trace ver_laps_clean ''Verstappen'' ''#E74C3C'' 3 6)
                   go_Figure))))"

definition create_laptime_chart :: "lap list \<Rightarrow> lap list \<Rightarrow> figure" where
  "create_laptime_chart ver_laps ham_laps =
     (let ver_laps_clean = laps_clean ver_laps;
          ham_laps_clean = laps_clean ham_laps
      in laptime_figure ver_laps_clean ham_laps_clean)"

text \<open>The figure that \<^verbatim>\<open>create_final_laps_chart\<close> builds from its two cleaned tables.\<close>

definition final_laps_figure :: "lap_s list \<Rightarrow> lap_s list \<Rightarrow> figure" where
  "final_laps_figure ver_laps_clean ham_laps_clean =
     (let ver_final = filter (\<lambda>l. LapNumber l \<ge> 49) ver_laps_clean;
          ham_final = filter (\<lambda>l. LapNumber l \<ge> 49) ham_laps_clean
      in update_layout
           (plain_layout ''Final 10 Laps - The Championship Decider''
              ''Lap Number'' ''Lap Time (seconds)'' 500)
           (add_trace (laptime_trace ham_final ''Hamilton'' ''#3498DB'' 4 8)
              (add_trace (laptime_trace ver_final ''Verstappen'' ''#E74C3C'' 4 8)
                 go_Figure)))"

definition create_final_laps_chart :: "lap list \<Rightarrow> lap list \<Rightarrow> figure" where
  "create_final_laps_chart ver_laps ham_laps =
     (let ver_laps_clean = laps_clean ver_laps;
          ham_laps_clean = laps_clean ham_laps
      in final_laps_figure ver_laps_clean ham_laps_clean)"

section \<open>Tyre strategy chart\<close>

record pit_row =
  pit_Driver :: string
  Tyre :: string
  Start :: int
  End :: int
  Stint :: int

text \<open>The hand-written stint table, row by row (columns of lines 344 to 348).\<close>

definition pit_data :: "pit_row list" where
  "pit_data =
     [\<lparr>pit_Driver = ''HAM'', Tyre = ''Medium'', Start = 0, End = 14, Stint = 0\<rparr>,
      \<lparr>pit_Driver = ''HAM'', Tyre = ''Hard'', Start = 14, End = 58, Stint = 1\<rparr>,
      \<lparr>pit_Driver = ''VER'', Tyre = ''Medium'', Start = 0, End = 36, Stint = 2\<rparr>,
      \<lparr>pit_Driver = ''VER'', Tyre = ''Hard'', Start = 36, End = 53, Stint = 3\<rparr>,
      \<lparr>pit_Driver = ''VER'', Tyre = ''Soft'', Start = 53, End = 58, Stint = 4\<rparr>]"

definition colors :: "(string \<times> string) list" where
  "colors = [(''Soft'', ''#E74C3C''), (''Hard'', ''#ECF0F1''), (''Medium'', ''#F39C12'')]"

text \<open>
  The loop over the rows. \<^verbatim>\<open>colors[row['Tyre'] ]\<close> is a dictionary subscript: a key that
  is absent raises \<^verbatim>\<open>KeyError\<close>, which ends the loop and the builder.
\<close>

fun add_stint_bars :: "pit_row list \<Rightarrow> figure \<Rightarrow> exn + figure" where
  "add_stint_bars [] fig = Inr fig"
| "add_stint_bars (row # rows) fig =
     (case map_of colors (Tyre row) of
        None \<Rightarrow> Inl (Exn ''KeyError'' (Tyre row))
      | Some c \<Rightarrow>
          add_stint_bars rows
            (add_trace
               (Bar [End row - Start row] [Stint row] (Start row) ''h''
                  (pit_Driver row @ '' - '' @ Tyre row) c)
               fig))"

text \<open>
  The body of \<^verbatim>\<open>create_tyre_strategy_chart\<close> over a stint table \<open>rows\<close>. The source
  function takes no argument: it runs this body on \<open>pit_data\<close> only.
\<close>

definition tyre_strategy_chart_of :: "pit_row list \<Rightarrow> exn + figure" where
  "tyre_strategy_chart_of rows =
     (case add_stint_bars rows go_Figure of
        Inl e \<Rightarrow> Inl e
      | Inr fig \<Rightarrow>
          Inr (update_layout
                 \<lparr>title = ''Tyre Strategy Timeline - The Winning Decision'',
                  xaxis_title = ''Lap Number'', yaxis_title = [],
                  yaxis_autorange = None,
                  yaxis_tickvals = map Stint rows,
                  yaxis_ticktext = map (\<lambda>r. pit_Driver r @ '' - '' @ Tyre r) rows,
                  hovermode = None, height = 400, showlegend = False\<rparr>
                 fig))"

definition create_tyre_strategy_chart :: "exn + figure" where
  "create_tyre_strategy_chart = tyre_strategy_chart_of pit_data"

section \<open>Race position chart\<close>

definition Position_cell :: "int option \<Rightarrow> cell" where
  "Position_cell p = (case p of None \<Rightarrow> CNull | Some n \<Rightarrow> CInt n)"

text \<open>The figure that \<^verbatim>\<open>create_position_chart\<close> builds from the two drivers' laps.\<close>

definition position_figure :: "lap list \<Rightarrow> lap list \<Rightarrow> figure" where
  "position_figure ver_laps ham_laps =
     update_layout
       \<lparr>title = ''Race Position Timeline - The Championship Moment'',
        xaxis_title = ''Lap Number'', yaxis_title = ''Race Position'',
        yaxis_autorange = Some ''reversed'',
        yaxis_tickvals = [], yaxis_ticktext = [],
        hovermode = None, height = 400, showlegend = True\<rparr>
       (add_vline 58 ''lime'' ''Final Lap Overtake'' ''top''
          (add_trace
             (Scatter (map (CInt \<circ> LapNumber) ham_laps)
                (map (Position_cell \<circ> Position) ham_laps)
                ''lines+markers'' ''Hamilton'' ''#3498DB'' 4 (Some 6))
             (add_trace
                (Scatter (map (CInt \<circ> LapNumber) ver_laps)
                   (map (Position_cell \<circ> Position) ver_laps)
                   ''lines+markers'' ''Verstappen'' ''#E74C3C'' 4 (Some 6))
                go_Figure)))"

definition create_position_chart :: "session \<Rightarrow> figure" where
  "create_position_chart s =
     (let ver_laps = pick_drivers ''VER'' (laps s);
          ham_laps = pick_drivers ''HAM'' (laps s)
      in position_figure ver_laps ham_laps)"

section \<open>The dashboard\<close>

text \<open>
  What the page shows, in program order. Column, tab and spinner containers only place
  their content and are left out; long texts are named by a short label.
\<close>

datatype event =
  st_markdown string
| st_sidebar_title string
| st_sidebar_selectbox string
| st_metric string string string
| st_info string
| st_success string
| st_error string
| st_warning string
| st_plotly_chart figure

datatype page_section =
  Overview | Telemetry_Analysis | Race_Pace | Strategy_Analysis | Final_Moments

text \<open>
  \<^verbatim>\<open>load_race_data()\<close>. The body of its \<^verbatim>\<open>try\<close> creates the cache directory and asks
  the provider for the session; \<open>provider\<close> is the outcome of that body. The handler
  shows an error and returns \<^verbatim>\<open>None\<close>.
\<close>

definition load_race_data :: "(exn + session) \<Rightarrow> event list \<times> session option" where
  "load_race_data provider =
     (case provider of
        Inr session \<Rightarrow> ([], Some session)
      | Inl e \<Rightarrow> ([st_error (''Error loading data: '' @ exn_str e)], None))"

text \<open>\<^verbatim>\<open>df.iloc[0]\<close>: the first row, or \<^verbatim>\<open>IndexError\<close> on an empty table.\<close>

definition iloc0 :: "lap list \<Rightarrow> exn + lap" where
  "iloc0 ls =
     (case ls of
        [] \<Rightarrow> Inl (Exn ''IndexError'' ''single positional indexer is out-of-bounds'')
      | l # _ \<Rightarrow> Inr l)"

text \<open>\<^verbatim>\<open>lap.get_telemetry().add_distance()\<close>.\<close>

definition telemetry_with_distance :: "session \<Rightarrow> lap \<Rightarrow> exn + telemetry" where
  "telemetry_with_distance s l =
     (case get_telemetry s l of Inl e \<Rightarrow> Inl e | Inr tel \<Rightarrow> add_distance s tel)"

text \<open>
  The body of the \<^verbatim>\<open>try\<close> of the last section (lines 551 to 574): the figure it hands
  to the page, or the exception that leaves it.
\<close>

definition final_lap_figure :: "session \<Rightarrow> exn + figure" where
  "final_lap_figure s =
     (case iloc0 (filter (\<lambda>l. LapNumber l = 58) (pick_drivers ''VER'' (laps s))) of
        Inl e \<Rightarrow> Inl e
      | Inr ver_lap58 \<Rightarrow>
     (case iloc0 (filter (\<lambda>l. LapNumber l = 58) (pick_drivers ''HAM'' (laps s))) of
        Inl e \<Rightarrow> Inl e
      | Inr ham_lap58 \<Rightarrow>
     (case telemetry_with_distance s ver_lap58 of
        Inl e \<Rightarrow> Inl e
      | Inr ver_tel_58 \<Rightarrow>
     (case telemetry_with_distance s ham_lap58 of
        Inl e \<Rightarrow> Inl e
      | Inr ham_tel_58 \<Rightarrow>
          Inr (update_layout
                 \<lparr>title = ''Final Lap Speed Comparison - The Championship Moment'',
                  xaxis_title = ''Distance (m)'', yaxis_title = ''Speed (km/h)'',
                  yaxis_autorange = None, yaxis_tickvals = [], yaxis_ticktext = [],
                  hovermode = None, height = 500, showlegend = True\<rparr>
                 (add_trace
                    (Scatter (map (CNum \<circ> Distance) ham_tel_58)
                       (map (CNum \<circ> Speed) ham_tel_58)
                       ''lines'' ''Hamilton'' ''#3498DB'' 4 None)
                    (add_trace
                       (Scatter (map (CNum \<circ> Distance) ver_tel_58)
                          (map (CNum \<circ> Speed) ver_tel_58)
                          ''lines'' ''Verstappen'' ''#E74C3C'' 4 None)
                       go_Figure)))))))"

definition header :: "event list" where
  "header =
     [st_markdown ''Abu Dhabi 2021: How Verstappen Beat Hamilton'',
      st_markdown ''A Telemetry & Strategy Analysis of F1 Most Dramatic Finish'',
      st_sidebar_title ''Navigation'',
      st_sidebar_selectbox ''Choose Analysis Section:'']"

definition footer :: "event list" where
  "footer =
     [st_markdown ''---'',
      st_markdown ''Data Source: FastF1 | Analysis: F1 Telemetry Study'']"

text \<open>
  Each branch of the \<^verbatim>\<open>if\<close>/\<^verbatim>\<open>elif\<close> chain of \<^verbatim>\<open>main\<close>: what it shows, and the
  exception that leaves it, if any. Only the last branch has a handler.
\<close>

definition show_section ::
  "page_section \<Rightarrow> session \<Rightarrow> telemetry \<Rightarrow> telemetry \<Rightarrow> lap list \<Rightarrow> lap list \<Rightarrow>
   event list \<times> exn option" where
  "show_section sec s ver_tel ham_tel ver_laps ham_laps =
     (case sec of
        Overview \<Rightarrow>
          ([st_markdown ''Race Overview'',
            st_metric ''Race Winner'' ''Max Verstappen'' ''trophy'',
            st_metric ''Championship Decided'' ''Final Lap'' ''Lap 58'',
            st_metric ''Key Factor'' ''Tyre Strategy'' ''Soft vs Hard'',
            st_markdown ''December 12, 2021''], None)
      | Telemetry_Analysis \<Rightarrow>
          ([st_markdown ''Fastest Lap Telemetry Comparison'',
            st_plotly_chart (create_speed_chart ver_tel ham_tel),
            st_info ''speed'',
            st_plotly_chart (create_throttle_chart ver_tel ham_tel),
            st_info ''throttle'',
            st_plotly_chart (create_brake_chart ver_tel ham_tel),
            st_info ''braking'',
            st_plotly_chart (create_gear_chart ver_tel ham_tel),
            st_info ''gears'',
            st_plotly_chart (create_rpm_chart ver_tel ham_tel),
            st_info ''rpm''], None)
      | Race_Pace \<Rightarrow>
          ([st_markdown ''Lap Time Evolution'',
            st_plotly_chart (create_laptime_chart ver_laps ham_laps),
            st_markdown ''Race Pace Analysis'',
            st_plotly_chart (create_final_laps_chart ver_laps ham_laps)], None)
      | Strategy_Analysis \<Rightarrow>
          (case create_tyre_strategy_chart of
             Inl e \<Rightarrow> ([st_markdown ''The Winning Strategy''], Some e)
           | Inr fig \<Rightarrow>
               ([st_markdown ''The Winning Strategy'',
                 st_plotly_chart fig,
                 st_markdown ''Hamilton Strategy'',
                 st_markdown ''Verstappen Strategy'',
                 st_success ''Strategic Masterclass''], None))
      | Final_Moments \<Rightarrow>
          ([st_markdown ''The Championship Decider'',
            st_plotly_chart (create_position_chart s),
            st_markdown ''Lap 58 - The Overtake'']
           @ (case final_lap_figure s of
                Inl e \<Rightarrow>
                  [st_warning ''Final lap telemetry data not available for detailed analysis.'']
              | Inr fig_final \<Rightarrow> [st_plotly_chart fig_final])
           @ [st_markdown ''The Decisive Moment''], None))"

text \<open>
  \<^verbatim>\<open>main()\<close>: the events shown, and the exception that leaves \<^verbatim>\<open>main\<close> (\<open>None\<close>
  when it returns). \<open>provider\<close> is the outcome of loading, \<open>sec\<close> the section chosen
  in the sidebar.
\<close>

definition main :: "(exn + session) \<Rightarrow> page_section \<Rightarrow> event list \<times> exn option" where
  "main provider sec =
     (case load_race_data provider of
        (loading, None) \<Rightarrow>
          (header @ loading
           @ [st_error ''Failed to load race data. Please check your internet connection and try again.''],
           None)
      | (loading, Some session) \<Rightarrow>
          (case get_telemetry_data session of
             Inl e \<Rightarrow> (header @ loading, Some e)
           | Inr (ver_tel, ham_tel, ver_laps, ham_laps) \<Rightarrow>
               (case show_section sec session ver_tel ham_tel ver_laps ham_laps of
                  (shown, Some e) \<Rightarrow> (header @ loading @ shown, Some e)
                | (shown, None) \<Rightarrow> (header @ loading @ shown @ footer, None))))"

section \<open>The builders over a store of data frames\<close>

text \<open>
  The builders above are written on values. In the source the arguments are references
  to data-frame objects that other code also holds, and three builders assign into a data
  frame. Here the frames live in a store, a reference is an index into it, a new object
  is appended, and \<^verbatim>\<open>df[column] = values\<close> replaces the object at its reference.
  \<^verbatim>\<open>df.copy()\<close> makes a new object; the temporaries that are only read are kept as
  values. A failure leaves the store as it was when the failing statement began.
\<close>

datatype frame =
  TelF telemetry
| TelIntF "int sample list"
| LapF "lap list"
| LapSF "lap_s list"

type_synonym store = "frame list"
type_synonym ref = nat

definition new_frame :: "frame \<Rightarrow> store \<Rightarrow> ref \<times> store" where
  "new_frame f st = (length st, st @ [f])"

text \<open>
  \<^verbatim>\<open>df['Brake'] = df['Brake'].astype(int)\<close> on the object at \<open>r\<close>. A lap table has no
  such column and the subscript raises.
\<close>

definition assign_Brake_int :: "ref \<Rightarrow> store \<Rightarrow> exn + store" where
  "assign_Brake_int r st =
     (case st ! r of
        TelF t \<Rightarrow> Inr (st[r := TelIntF (set_Brake t (astype_int (map Brake t)))])
      | TelIntF t \<Rightarrow> Inr (st[r := TelIntF (set_Brake t (map Brake t))])
      | _ \<Rightarrow> Inl (Exn ''KeyError'' ''Brake''))"

text \<open>
  \<^verbatim>\<open>df[df['LapTime'].notnull()]\<close> as a value: the rows with a lap time. A telemetry
  series has no such column.
\<close>

definition notnull_frame :: "frame \<Rightarrow> exn + lap list" where
  "notnull_frame f =
     (case f of
        LapF ls \<Rightarrow> Inr (notnull_LapTime ls)
      | LapSF ls \<Rightarrow> Inr (notnull_LapTime (map lap.truncate ls))
      | _ \<Rightarrow> Inl (Exn ''KeyError'' ''LapTime''))"

text \<open>\<^verbatim>\<open>df['LapTime_s'] = df['LapTime'].dt.total_seconds()\<close> on the object at \<open>r\<close>.\<close>

definition assign_LapTime_s :: "ref \<Rightarrow> store \<Rightarrow> exn + store" where
  "assign_LapTime_s r st =
     (case st ! r of
        LapF ls \<Rightarrow> Inr (st[r := LapSF (set_LapTime_s ls)])
      | LapSF ls \<Rightarrow> Inr (st[r := LapSF (set_LapTime_s (map lap.truncate ls))])
      | _ \<Rightarrow> Inl (Exn ''KeyError'' ''LapTime''))"

text \<open>
  A builder that only reads its two telemetry series, as the provider delivers them
  (another kind of frame is answered by the failure of the first subscript).
\<close>

definition reads_telemetry ::
  "(telemetry \<Rightarrow> telemetry \<Rightarrow> figure) \<Rightarrow> ref \<Rightarrow> ref \<Rightarrow> store \<Rightarrow> (exn + figure) \<times> store" where
  "reads_telemetry build ver_tel ham_tel st =
     (case (st ! ver_tel, st ! ham_tel) of
        (TelF v, TelF h) \<Rightarrow> (Inr (build v h), st)
      | _ \<Rightarrow> (Inl (Exn ''KeyError'' ''Distance''), st))"

definition create_speed_chart_st :: "ref \<Rightarrow> ref \<Rightarrow> store \<Rightarrow> (exn + figure) \<times> store" where
  "create_speed_chart_st = reads_telemetry create_speed_chart"

definition create_throttle_chart_st :: "ref \<Rightarrow> ref \<Rightarrow> store \<Rightarrow> (exn + figure) \<times> store" where
  "create_throttle_chart_st = reads_telemetry create_throttle_chart"

definition create_gear_chart_st :: "ref \<Rightarrow> ref \<Rightarrow> store \<Rightarrow> (exn + figure) \<times> store" where
  "create_gear_chart_st = reads_telemetry create_gear_chart"

definition create_rpm_chart_st :: "ref \<Rightarrow> ref \<Rightarrow> store \<Rightarrow> (exn + figure) \<times> store" where
  "create_rpm_chart_st = reads_telemetry create_rpm_chart"

text \<open>
  \<^verbatim>\<open>create_brake_chart\<close>: two copies are made, each copy is assigned its cast brake
  column, and the figure reads the copies.
\<close>

definition create_brake_chart_st :: "ref \<Rightarrow> ref \<Rightarrow> store \<Rightarrow> (exn + figure) \<times> store" where
  "create_brake_chart_st ver_tel ham_tel st =
     (let (ver_tel_copy, st1) = new_frame (st ! ver_tel) st;
          (ham_tel_copy, st2) = new_frame (st1 ! ham_tel) st1
      in case assign_Brake_int ver_tel_copy st2 of
           Inl e \<Rightarrow> (Inl e, st2)
         | Inr st3 \<Rightarrow>
             (case assign_Brake_int ham_tel_copy st3 of
                Inl e \<Rightarrow> (Inl e, st3)
              | Inr st4 \<Rightarrow>
                  (case (st4 ! ver_tel_copy, st4 ! ham_tel_copy) of
                     (TelIntF v, TelIntF h) \<Rightarrow> (Inr (brake_figure v h), st4)
                   | _ \<Rightarrow> (Inl (Exn ''KeyError'' ''Brake''), st4))))"

text \<open>
  The first four statements of \<^verbatim>\<open>create_laptime_chart\<close> and of
  \<^verbatim>\<open>create_final_laps_chart\<close>: the copy of each filtered table is a new object, and
  the seconds column is assigned into the copy.
\<close>

definition cleaned_copies :: "ref \<Rightarrow> ref \<Rightarrow> store \<Rightarrow> (exn + ref \<times> ref) \<times> store" where
  "cleaned_copies ver_laps ham_laps st =
     (case notnull_frame (st ! ver_laps) of
        Inl e \<Rightarrow> (Inl e, st)
      | Inr v \<Rightarrow>
          (let (ver_laps_clean, st1) = new_frame (LapF v) st
           in case notnull_frame (st1 ! ham_laps) of
                Inl e \<Rightarrow> (Inl e, st1)
              | Inr h \<Rightarrow>
                  (let (ham_laps_clean, st2) = new_frame (LapF h) st1
                   in case assign_LapTime_s ver_laps_clean st2 of
                        Inl e \<Rightarrow> (Inl e, st2)
                      | Inr st3 \<Rightarrow>
                          (case assign_LapTime_s ham_laps_clean st3 of
                             Inl e \<Rightarrow> (Inl e, st3)
                           | Inr st4 \<Rightarrow> (Inr (ver_laps_clean, ham_laps_clean), st4)))))"

definition reads_clean ::
  "(lap_s list \<Rightarrow> lap_s list \<Rightarrow> figure) \<Rightarrow> ref \<Rightarrow> ref \<Rightarrow> store \<Rightarrow> (exn + figure) \<times> store" where
  "reads_clean build ver_laps ham_laps st =
     (case cleaned_copies ver_laps ham_laps st of
        (Inl e, st') \<Rightarrow> (Inl e, st')
      | (Inr (ver_laps_clean, ham_laps_clean), st4) \<Rightarrow>
          (case (st4 ! ver_laps_clean, st4 ! ham_laps_clean) of
             (LapSF v, LapSF h) \<Rightarrow> (Inr (build v h), st4)
           | _ \<Rightarrow> (Inl (Exn ''KeyError'' ''LapTime_s''), st4)))"

text \<open>
  \<^verbatim>\<open>create_position_chart\<close>, given the reference to the session's lap table: the
  driver slices and the column selections are values that are only read.
\<close>

definition create_position_chart_st :: "ref \<Rightarrow> store \<Rightarrow> (exn + figure) \<times> store" where
  "create_position_chart_st session_laps st =
     (case st ! session_laps of
        LapF ls \<Rightarrow>
          (Inr (position_figure (pick_drivers ''VER'' ls) (pick_drivers ''HAM'' ls)), st)
      | LapSF ls \<Rightarrow>
          (Inr (position_figure (pick_drivers ''VER'' (map lap.truncate ls))
                  (pick_drivers ''HAM'' (map lap.truncate ls))), st)
      | _ \<Rightarrow> (Inl (Exn ''KeyError'' ''Driver''), st))"

definition create_laptime_chart_st :: "ref \<Rightarrow> ref \<Rightarrow> store \<Rightarrow> (exn + figure) \<times> store" where
  "create_laptime_chart_st = reads_clean laptime_figure"

definition create_final_laps_chart_st :: "ref \<Rightarrow> ref \<Rightarrow> store \<Rightarrow> (exn + figure) \<times> store" where
  "create_final_laps_chart_st = reads_clean final_laps_figure"

section \<open>Example data\<close>

text \<open>
  The lap table of the end-to-end scenario of the specification, with the two drivers of the
  dashboard, and two tables without a timed lap for Verstappen. In these tables a lap is
  flagged as a personal best when it has a time. The telemetry of a lap is one sample that
  carries the lap number as its speed, so that laps can be told apart.
\<close>

definition mk_lap :: "string \<Rightarrow> int \<Rightarrow> int option \<Rightarrow> lap" where
  "mk_lap d n t =
     \<lparr>Driver = d, LapNumber = n, LapTime = t, IsPersonalBest = (t \<noteq> None),
      Position = None, Compound = ''Hard''\<rparr>"

definition lap_marker :: "lap \<Rightarrow> exn + telemetry" where
  "lap_marker l = Inr [\<lparr>Distance = 0, Speed = of_int (LapNumber l), Throttle = 0, Brake = False, nGear = 1, RPM = 0\<rparr>]"

definition scenario_session :: session where
  "scenario_session =
     \<lparr>laps = [mk_lap ''VER'' 1 (Some 90000000000), mk_lap ''VER'' 2 (Some 88200000000), mk_lap ''VER'' 3 None,
              mk_lap ''HAM'' 1 (Some 91000000000), mk_lap ''HAM'' 2 (Some 87000000000), mk_lap ''HAM'' 3 (Some 86500000000)],
      get_telemetry = lap_marker, add_distance = Inr\<rparr>"

definition untimed_session :: session where
  "untimed_session =
     \<lparr>laps = [mk_lap ''VER'' 1 None, mk_lap ''HAM'' 1 (Some 91000000000)],
      get_telemetry = lap_marker, add_distance = Inr\<rparr>"

definition empty_session :: session where
  "empty_session = \<lparr>laps = [], get_telemetry = lap_marker, add_distance = Inr\<rparr>"

text \<open>
  Two tables with a deleted lap time: Verstappen's faster second lap is not flagged as a
  personal best; and Verstappen's only lap is timed and not flagged.
\<close>

definition deleted_lap_session :: session where
  "deleted_lap_session =
     \<lparr>laps = [mk_lap ''VER'' 1 (Some 90000000000),
              (mk_lap ''VER'' 2 (Some 88200000000))\<lparr>IsPersonalBest := False\<rparr>,
              mk_lap ''HAM'' 1 (Some 91000000000)],
      get_telemetry = lap_marker, add_distance = Inr\<rparr>"

definition unflagged_session :: session where
  "unflagged_session =
     \<lparr>laps = [(mk_lap ''VER'' 1 (Some 90000000000))\<lparr>IsPersonalBest := False\<rparr>,
              mk_lap ''HAM'' 1 (Some 91000000000)],
      get_telemetry = lap_marker, add_distance = Inr\<rparr>"

text \<open>A table with race positions: the two drivers swap places on lap 2.\<close>

definition position_session :: session where
  "position_session =
     \<lparr>laps = [(mk_lap ''VER'' 1 (Some 90000000000))\<lparr>Position := Some 2\<rparr>,
              (mk_lap ''VER'' 2 (Some 88200000000))\<lparr>Position := Some 1\<rparr>,
              (mk_lap ''HAM'' 1 (Some 89000000000))\<lparr>Position := Some 1\<rparr>,
              (mk_lap ''HAM'' 2 (Some 89500000000))\<lparr>Position := Some 2\<rparr>],
      get_telemetry = lap_marker, add_distance = Inr\<rparr>"

text \<open>
  A full race of 58 timed laps for one driver, lap \<open>gap\<close> (if in range) without a time.
\<close>

definition race_laps :: "string \<Rightarrow> int \<Rightarrow> lap list" where
  "race_laps d gap =
     map (\<lambda>n. mk_lap d n (if n = gap then None else Some 90000000000)) [1..58]"

text \<open>A store with two telemetry series and the two lap tables of the scenario.\<close>

definition example_store :: store where
  "example_store =
     [TelF [\<lparr>Distance = 0, Speed = 250, Throttle = 100, Brake = False, nGear = 7, RPM = 11000\<rparr>,
            \<lparr>Distance = 10, Speed = 120, Throttle = 0, Brake = True, nGear = 3, RPM = 9000\<rparr>],
      TelF [\<lparr>Distance = 0, Speed = 248, Throttle = 100, Brake = True, nGear = 7, RPM = 10900\<rparr>],
      LapF (pick_drivers ''VER'' (laps scenario_session)),
      LapF (pick_drivers ''HAM'' (laps scenario_session))]"

section \<open>Properties of the data selection\<close>

lemma idxmin_None_iff: "idxmin ls = None \<longleftrightarrow> (\<forall>l\<in>set ls. LapTime l = None)"
  by (induction ls) (auto split: option.splits if_splits)

lemma idxmin_Some_mem: "idxmin ls = Some m \<Longrightarrow> m \<in> set ls \<and> LapTime m \<noteq> None"
  by (induction ls arbitrary: m) (auto split: option.splits if_splits)

lemma idxmin_Some_least:
  "idxmin ls = Some m \<Longrightarrow> LapTime m = Some t \<Longrightarrow>
   \<forall>l\<in>set ls. \<forall>u. LapTime l = Some u \<longrightarrow> t \<le> u"
proof (induction ls arbitrary: m t)
  case Nil
  then show ?case by simp
next
  case (Cons a ls)
  show ?case
  proof (cases "LapTime a")
    case None
    with Cons show ?thesis by auto
  next
    case (Some ta)
    note a = this
    show ?thesis
    proof (cases "idxmin ls")
      case None
      then have "\<forall>x\<in>set ls. LapTime x = None" by (simp add: idxmin_None_iff)
      with Cons.prems a None show ?thesis by auto
    next
      case (Some m')
      then obtain u' where u': "LapTime m' = Some u'"
        using idxmin_Some_mem by fastforce
      have least: "\<forall>x\<in>set ls. \<forall>v. LapTime x = Some v \<longrightarrow> u' \<le> v"
        using Cons.IH [OF Some u'] .
      show ?thesis
      proof (cases "u' < ta")
        case True
        with Cons.prems a Some u' have "m = m'" "t = u'" by auto
        with least True a show ?thesis by auto
      next
        case False
        with Cons.prems a Some u' have "m = a" "t = ta" by auto
        with least False a show ?thesis by fastforce
      qed
    qed
  qed
qed

lemma idxmin_Min:
  assumes "idxmin ls = Some m"
  shows "m \<in> set ls \<and> LapTime m = Some (Min (Option.these (LapTime ` set ls)))"
proof -
  from assms have mem: "m \<in> set ls" and "LapTime m \<noteq> None"
    using idxmin_Some_mem by blast+
  then obtain t where t: "LapTime m = Some t" by blast
  have fin: "finite (Option.these (LapTime ` set ls))"
    by (simp add: Option.these_def)
  have tin: "t \<in> Option.these (LapTime ` set ls)"
    using mem t by (force simp: Option.in_these_eq)
  have "\<And>u. u \<in> Option.these (LapTime ` set ls) \<Longrightarrow> t \<le> u"
  proof -
    fix u assume "u \<in> Option.these (LapTime ` set ls)"
    then obtain l where "l \<in> set ls" "LapTime l = Some u"
      by (auto simp: Option.in_these_eq)
    then show "t \<le> u" using idxmin_Some_least [OF assms t] by blast
  qed
  then have "Min (Option.these (LapTime ` set ls)) = t"
    using fin tin by (intro Min_eqI) auto
  with mem t show ?thesis by simp
qed

lemma pick_fastest_eq_idxmin: "pick_fastest ls = idxmin (filter IsPersonalBest ls)"
proof -
  have "list_all (\<lambda>l. LapTime l = None) pb \<Longrightarrow> idxmin pb = None" for pb
    by (simp add: idxmin_None_iff list_all_iff)
  then show ?thesis by (auto simp: pick_fastest_def Let_def)
qed

lemma pick_fastest_None_iff:
  "pick_fastest ls = None \<longleftrightarrow> (\<forall>l\<in>set ls. IsPersonalBest l \<longrightarrow> LapTime l = None)"
  by (auto simp: pick_fastest_eq_idxmin idxmin_None_iff)

lemma pick_fastest_Min:
  assumes "pick_fastest ls = Some m"
  shows "m \<in> set ls \<and> IsPersonalBest m \<and>
    LapTime m = Some (Min (Option.these (LapTime ` set (filter IsPersonalBest ls))))"
  using idxmin_Min [of "filter IsPersonalBest ls" m] assms
  by (simp add: pick_fastest_eq_idxmin)

lemma Min_flagged:
  assumes "l \<in> set ls" "IsPersonalBest l"
    and "LapTime l = Some (Min (Option.these (LapTime ` set ls)))"
  shows "Min (Option.these (LapTime ` set (filter IsPersonalBest ls)))
    = Min (Option.these (LapTime ` set ls))"
proof (rule Min_eqI)
  show "finite (Option.these (LapTime ` set (filter IsPersonalBest ls)))"
    by (simp add: Option.these_def)
  show "Min (Option.these (LapTime ` set ls))
      \<in> Option.these (LapTime ` set (filter IsPersonalBest ls))"
    using assms by (force simp: Option.in_these_eq)
  fix y assume "y \<in> Option.these (LapTime ` set (filter IsPersonalBest ls))"
  then have "y \<in> Option.these (LapTime ` set ls)"
    by (auto simp: Option.in_these_eq)
  then show "Min (Option.these (LapTime ` set ls)) \<le> y"
    by (simp add: Option.these_def)
qed

section \<open>Fastest-lap selection\<close>

text \<open>
  Claim C1, as amended. \<^verbatim>\<open>get_telemetry_data\<close> has no error of its own for a driver
  without laps or without a timed lap: the pick, which looks only at the laps flagged as
  personal best, yields no lap when none of these has a time, and the call of
  \<^verbatim>\<open>get_telemetry\<close> on it fails with \<^verbatim>\<open>AttributeError\<close> (for Hamilton unless
  fetching the telemetry of one of Verstappen's laps has failed before, which then is the
  failure). When the function returns, each telemetry is that of a flagged lap of its
  driver whose lap time is the minimum of the lap times of the driver's flagged laps; this
  is the minimum of all the driver's non-null lap times when a lap with that time is
  flagged. It does return when both drivers have a flagged lap with a time and the provider
  delivers the telemetry of every lap.
\<close>

theorem get_telemetry_data_fastest_lap:
  "((\<forall>l\<in>set (pick_drivers ''VER'' (laps s)). IsPersonalBest l \<longrightarrow> LapTime l = None) \<longrightarrow>
      get_telemetry_data s =
        Inl (Exn ''AttributeError'' ''NoneType object has no attribute get_telemetry''))
   \<and> ((\<forall>l\<in>set (pick_drivers ''HAM'' (laps s)). IsPersonalBest l \<longrightarrow> LapTime l = None) \<longrightarrow>
      get_telemetry_data s =
        Inl (Exn ''AttributeError'' ''NoneType object has no attribute get_telemetry'') \<or>
      (\<exists>v\<in>set (pick_drivers ''VER'' (laps s)). \<exists>e.
         get_telemetry s v = Inl e \<and> get_telemetry_data s = Inl e))
   \<and> (\<forall>ver_tel ham_tel ver_laps ham_laps.
        get_telemetry_data s = Inr (ver_tel, ham_tel, ver_laps, ham_laps) \<longrightarrow>
          ver_laps = pick_drivers ''VER'' (laps s) \<and>
          ham_laps = pick_drivers ''HAM'' (laps s) \<and>
          (\<exists>v\<in>set ver_laps. IsPersonalBest v \<and> get_telemetry s v = Inr ver_tel \<and>
             LapTime v = Some (Min (Option.these (LapTime ` set (filter IsPersonalBest ver_laps)))) \<and>
             ((\<exists>l\<in>set ver_laps. IsPersonalBest l \<and>
                  LapTime l = Some (Min (Option.these (LapTime ` set ver_laps)))) \<longrightarrow>
              LapTime v = Some (Min (Option.these (LapTime ` set ver_laps))))) \<and>
          (\<exists>h\<in>set ham_laps. IsPersonalBest h \<and> get_telemetry s h = Inr ham_tel \<and>
             LapTime h = Some (Min (Option.these (LapTime ` set (filter IsPersonalBest ham_laps)))) \<and>
             ((\<exists>l\<in>set ham_laps. IsPersonalBest l \<and>
                  LapTime l = Some (Min (Option.these (LapTime ` set ham_laps)))) \<longrightarrow>
              LapTime h = Some (Min (Option.these (LapTime ` set ham_laps))))))
   \<and> ((\<exists>l\<in>set (pick_drivers ''VER'' (laps s)). IsPersonalBest l \<and> LapTime l \<noteq> None) \<and>
       (\<exists>l\<in>set (pick_drivers ''HAM'' (laps s)). IsPersonalBest l \<and> LapTime l \<noteq> None) \<and>
       (\<forall>l\<in>set (laps s). \<exists>t. get_telemetry s l = Inr t) \<longrightarrow>
      (\<exists>r. get_telemetry_data s = Inr r))"
proof -
  let ?none = "Inl (Exn ''AttributeError'' ''NoneType object has no attribute get_telemetry'')"
  let ?V = "pick_drivers ''VER'' (laps s)"
  let ?H = "pick_drivers ''HAM'' (laps s)"
  have p1: "(\<forall>l\<in>set ?V. IsPersonalBest l \<longrightarrow> LapTime l = None) \<longrightarrow> get_telemetry_data s = ?none"
  proof
    assume "\<forall>l\<in>set ?V. IsPersonalBest l \<longrightarrow> LapTime l = None"
    then have "pick_fastest ?V = None"
      by (simp add: pick_fastest_None_iff)
    then show "get_telemetry_data s = ?none"
      by (simp add: get_telemetry_data_def call_get_telemetry_def)
  qed
  have p2: "(\<forall>l\<in>set ?H. IsPersonalBest l \<longrightarrow> LapTime l = None) \<longrightarrow>
      get_telemetry_data s = ?none \<or>
      (\<exists>v\<in>set ?V. \<exists>e. get_telemetry s v = Inl e \<and> get_telemetry_data s = Inl e)"
  proof
    assume "\<forall>l\<in>set ?H. IsPersonalBest l \<longrightarrow> LapTime l = None"
    then have h: "pick_fastest ?H = None"
      by (simp add: pick_fastest_None_iff)
    show "get_telemetry_data s = ?none \<or>
      (\<exists>v\<in>set ?V. \<exists>e. get_telemetry s v = Inl e \<and> get_telemetry_data s = Inl e)"
    proof (cases "pick_fastest ?V")
      case None
      then show ?thesis
        by (simp add: get_telemetry_data_def call_get_telemetry_def)
    next
      case (Some v)
      then have mem: "v \<in> set ?V" using pick_fastest_Min by blast
      show ?thesis
      proof (cases "get_telemetry s v")
        case (Inl e)
        with Some have "get_telemetry_data s = Inl e"
          by (simp add: get_telemetry_data_def call_get_telemetry_def)
        with mem Inl show ?thesis by blast
      next
        case (Inr t)
        with Some h show ?thesis
          by (simp add: get_telemetry_data_def call_get_telemetry_def)
      qed
    qed
  qed
  have pick: "\<And>ls m tel. pick_fastest ls = Some m \<Longrightarrow> get_telemetry s m = Inr tel \<Longrightarrow>
      \<exists>v\<in>set ls. IsPersonalBest v \<and> get_telemetry s v = Inr tel \<and>
         LapTime v = Some (Min (Option.these (LapTime ` set (filter IsPersonalBest ls)))) \<and>
         ((\<exists>l\<in>set ls. IsPersonalBest l \<and>
              LapTime l = Some (Min (Option.these (LapTime ` set ls)))) \<longrightarrow>
          LapTime v = Some (Min (Option.these (LapTime ` set ls))))"
  proof -
    fix ls m tel
    assume m: "pick_fastest ls = Some m" and tel: "get_telemetry s m = Inr tel"
    note pm = pick_fastest_Min [OF m]
    have "(\<exists>l\<in>set ls. IsPersonalBest l \<and>
              LapTime l = Some (Min (Option.these (LapTime ` set ls)))) \<longrightarrow>
          LapTime m = Some (Min (Option.these (LapTime ` set ls)))"
      using pm Min_flagged [of _ ls] by auto
    with pm tel show "\<exists>v\<in>set ls. IsPersonalBest v \<and> get_telemetry s v = Inr tel \<and>
         LapTime v = Some (Min (Option.these (LapTime ` set (filter IsPersonalBest ls)))) \<and>
         ((\<exists>l\<in>set ls. IsPersonalBest l \<and>
              LapTime l = Some (Min (Option.these (LapTime ` set ls)))) \<longrightarrow>
          LapTime v = Some (Min (Option.these (LapTime ` set ls))))"
      by (intro bexI [of _ m]) simp_all
  qed
  have p3: "\<forall>ver_tel ham_tel ver_laps ham_laps.
        get_telemetry_data s = Inr (ver_tel, ham_tel, ver_laps, ham_laps) \<longrightarrow>
          ver_laps = ?V \<and> ham_laps = ?H \<and>
          (\<exists>v\<in>set ver_laps. IsPersonalBest v \<and> get_telemetry s v = Inr ver_tel \<and>
             LapTime v = Some (Min (Option.these (LapTime ` set (filter IsPersonalBest ver_laps)))) \<and>
             ((\<exists>l\<in>set ver_laps. IsPersonalBest l \<and>
                  LapTime l = Some (Min (Option.these (LapTime ` set ver_laps)))) \<longrightarrow>
              LapTime v = Some (Min (Option.these (LapTime ` set ver_laps))))) \<and>
          (\<exists>h\<in>set ham_laps. IsPersonalBest h \<and> get_telemetry s h = Inr ham_tel \<and>
             LapTime h = Some (Min (Option.these (LapTime ` set (filter IsPersonalBest ham_laps)))) \<and>
             ((\<exists>l\<in>set ham_laps. IsPersonalBest l \<and>
                  LapTime l = Some (Min (Option.these (LapTime ` set ham_laps)))) \<longrightarrow>
              LapTime h = Some (Min (Option.these (LapTime ` set ham_laps)))))"
  proof (intro allI impI)
    fix ver_tel ham_tel ver_laps ham_laps
    assume r: "get_telemetry_data s = Inr (ver_tel, ham_tel, ver_laps, ham_laps)"
    then have vl: "ver_laps = ?V" and hl: "ham_laps = ?H"
      and cv: "call_get_telemetry s (pick_fastest ?V) = Inr ver_tel"
      and ch: "call_get_telemetry s (pick_fastest ?H) = Inr ham_tel"
      by (auto simp: get_telemetry_data_def Let_def split: sum.splits)
    from cv obtain v where v: "pick_fastest ver_laps = Some v" "get_telemetry s v = Inr ver_tel"
      by (auto simp: call_get_telemetry_def vl split: option.splits)
    from ch obtain h where h: "pick_fastest ham_laps = Some h" "get_telemetry s h = Inr ham_tel"
      by (auto simp: call_get_telemetry_def hl split: option.splits)
    from vl hl pick [OF v] pick [OF h]
    show "ver_laps = ?V \<and> ham_laps = ?H \<and>
          (\<exists>v\<in>set ver_laps. IsPersonalBest v \<and> get_telemetry s v = Inr ver_tel \<and>
             LapTime v = Some (Min (Option.these (LapTime ` set (filter IsPersonalBest ver_laps)))) \<and>
             ((\<exists>l\<in>set ver_laps. IsPersonalBest l \<and>
                  LapTime l = Some (Min (Option.these (LapTime ` set ver_laps)))) \<longrightarrow>
              LapTime v = Some (Min (Option.these (LapTime ` set ver_laps))))) \<and>
          (\<exists>h\<in>set ham_laps. IsPersonalBest h \<and> get_telemetry s h = Inr ham_tel \<and>
             LapTime h = Some (Min (Option.these (LapTime ` set (filter IsPersonalBest ham_laps)))) \<and>
             ((\<exists>l\<in>set ham_laps. IsPersonalBest l \<and>
                  LapTime l = Some (Min (Option.these (LapTime ` set ham_laps)))) \<longrightarrow>
              LapTime h = Some (Min (Option.these (LapTime ` set ham_laps)))))"
      by (intro conjI)
  qed
  have p4: "(\<exists>l\<in>set ?V. IsPersonalBest l \<and> LapTime l \<noteq> None) \<and>
       (\<exists>l\<in>set ?H. IsPersonalBest l \<and> LapTime l \<noteq> None) \<and>
       (\<forall>l\<in>set (laps s). \<exists>t. get_telemetry s l = Inr t) \<longrightarrow>
      (\<exists>r. get_telemetry_data s = Inr r)"
  proof
    assume a: "(\<exists>l\<in>set ?V. IsPersonalBest l \<and> LapTime l \<noteq> None) \<and>
       (\<exists>l\<in>set ?H. IsPersonalBest l \<and> LapTime l \<noteq> None) \<and>
       (\<forall>l\<in>set (laps s). \<exists>t. get_telemetry s l = Inr t)"
    then obtain v where v: "pick_fastest ?V = Some v"
      using pick_fastest_None_iff [of ?V] by fastforce
    from a obtain h where h: "pick_fastest ?H = Some h"
      using pick_fastest_None_iff [of ?H] by fastforce
    from pick_fastest_Min [OF v] have "v \<in> set (laps s)" by (simp add: pick_drivers_def)
    with a obtain tv where tv: "get_telemetry s v = Inr tv" by blast
    from pick_fastest_Min [OF h] have "h \<in> set (laps s)" by (simp add: pick_drivers_def)
    with a obtain th where th: "get_telemetry s h = Inr th" by blast
    show "\<exists>r. get_telemetry_data s = Inr r"
      by (simp add: get_telemetry_data_def call_get_telemetry_def v h tv th)
  qed
  from p1 p2 p3 p4 show ?thesis by (intro conjI)
qed

text \<open>
  The theorem at the scenario table (fastest laps 2 and 3) and at a table where
  Verstappen's only lap has no time.
\<close>

lemmas scenario_defs = get_telemetry_data_def scenario_session_def untimed_session_def mk_lap_def
  pick_drivers_def pick_fastest_def call_get_telemetry_def lap_marker_def

theorem get_telemetry_data_fastest_lap_witness:
  "get_telemetry_data scenario_session =
     Inr ([\<lparr>Distance = 0, Speed = 2, Throttle = 0, Brake = False, nGear = 1, RPM = 0\<rparr>],
          [\<lparr>Distance = 0, Speed = 3, Throttle = 0, Brake = False, nGear = 1, RPM = 0\<rparr>],
          pick_drivers ''VER'' (laps scenario_session),
          pick_drivers ''HAM'' (laps scenario_session))
   \<and> Min (Option.these (LapTime ` set (filter IsPersonalBest
        (pick_drivers ''VER'' (laps scenario_session))))) = 88200000000
   \<and> Min (Option.these (LapTime ` set (filter IsPersonalBest
        (pick_drivers ''HAM'' (laps scenario_session))))) = 86500000000
   \<and> get_telemetry_data untimed_session =
       Inl (Exn ''AttributeError'' ''NoneType object has no attribute get_telemetry'')"
proof -
  have r: "get_telemetry_data scenario_session =
     Inr ([\<lparr>Distance = 0, Speed = 2, Throttle = 0, Brake = False, nGear = 1, RPM = 0\<rparr>],
          [\<lparr>Distance = 0, Speed = 3, Throttle = 0, Brake = False, nGear = 1, RPM = 0\<rparr>],
          pick_drivers ''VER'' (laps scenario_session),
          pick_drivers ''HAM'' (laps scenario_session))"
    by (simp add: scenario_defs)
  have u: "\<forall>l\<in>set (pick_drivers ''VER'' (laps untimed_session)).
      IsPersonalBest l \<longrightarrow> LapTime l = None"
    by (simp add: scenario_defs)
  note t = get_telemetry_data_fastest_lap [of scenario_session]
  from t r have
    "\<exists>v\<in>set (pick_drivers ''VER'' (laps scenario_session)).
        get_telemetry scenario_session v =
          Inr [\<lparr>Distance = 0, Speed = 2, Throttle = 0, Brake = False, nGear = 1, RPM = 0\<rparr>] \<and>
        LapTime v = Some (Min (Option.these (LapTime ` set (filter IsPersonalBest
          (pick_drivers ''VER'' (laps scenario_session))))))"
    by blast
  then have mv: "Min (Option.these (LapTime ` set (filter IsPersonalBest
      (pick_drivers ''VER'' (laps scenario_session))))) = 88200000000"
    by (auto simp: scenario_session_def mk_lap_def pick_drivers_def lap_marker_def)
  from t r have
    "\<exists>h\<in>set (pick_drivers ''HAM'' (laps scenario_session)).
        get_telemetry scenario_session h =
          Inr [\<lparr>Distance = 0, Speed = 3, Throttle = 0, Brake = False, nGear = 1, RPM = 0\<rparr>] \<and>
        LapTime h = Some (Min (Option.these (LapTime ` set (filter IsPersonalBest
          (pick_drivers ''HAM'' (laps scenario_session))))))"
    by blast
  then have mh: "Min (Option.these (LapTime ` set (filter IsPersonalBest
      (pick_drivers ''HAM'' (laps scenario_session))))) = 86500000000"
    by (auto simp: scenario_session_def mk_lap_def pick_drivers_def lap_marker_def)
  from get_telemetry_data_fastest_lap [of untimed_session] u
  have "get_telemetry_data untimed_session =
       Inl (Exn ''AttributeError'' ''NoneType object has no attribute get_telemetry'')"
    by blast
  with r mv mh show ?thesis by blast
qed

text \<open>
  The claim as stated fails. With no lap at all, and with laps that all lack a time, the
  exception is \<^verbatim>\<open>AttributeError\<close>, neither \<^verbatim>\<open>NoLapsFoundError\<close> nor
  \<^verbatim>\<open>NoCompletedLapError\<close>. With a timed lap that is not flagged as a personal best, the
  pick is lap 1 (90 s) although lap 2 has the least lap time (88.2 s); and a driver whose
  only timed lap is not flagged has no pick, so the function fails although a lap time is
  non-null.
\<close>

theorem get_telemetry_data_no_laps_counterexample:
  "get_telemetry_data empty_session
     = Inl (Exn ''AttributeError'' ''NoneType object has no attribute get_telemetry'')
   \<and> exn_class (Exn ''AttributeError'' ''NoneType object has no attribute get_telemetry'')
       \<noteq> ''NoLapsFoundError''
   \<and> get_telemetry_data untimed_session
     = Inl (Exn ''AttributeError'' ''NoneType object has no attribute get_telemetry'')
   \<and> exn_class (Exn ''AttributeError'' ''NoneType object has no attribute get_telemetry'')
       \<noteq> ''NoCompletedLapError''
   \<and> pick_fastest (pick_drivers ''VER'' (laps deleted_lap_session))
     = Some (mk_lap ''VER'' 1 (Some 90000000000))
   \<and> get_telemetry_data deleted_lap_session =
       Inr ([\<lparr>Distance = 0, Speed = 1, Throttle = 0, Brake = False, nGear = 1, RPM = 0\<rparr>],
            [\<lparr>Distance = 0, Speed = 1, Throttle = 0, Brake = False, nGear = 1, RPM = 0\<rparr>],
            pick_drivers ''VER'' (laps deleted_lap_session),
            pick_drivers ''HAM'' (laps deleted_lap_session))
   \<and> Min (Option.these (LapTime ` set (pick_drivers ''VER'' (laps deleted_lap_session))))
     = 88200000000
   \<and> get_telemetry_data unflagged_session
     = Inl (Exn ''AttributeError'' ''NoneType object has no attribute get_telemetry'')"
proof -
  have a: "get_telemetry_data empty_session
     = Inl (Exn ''AttributeError'' ''NoneType object has no attribute get_telemetry'')"
    by (simp add: get_telemetry_data_def empty_session_def pick_drivers_def pick_fastest_def
        call_get_telemetry_def)
  have b: "get_telemetry_data untimed_session
     = Inl (Exn ''AttributeError'' ''NoneType object has no attribute get_telemetry'')"
    by (simp add: scenario_defs)
  have c: "pick_fastest (pick_drivers ''VER'' (laps deleted_lap_session))
     = Some (mk_lap ''VER'' 1 (Some 90000000000))"
    by (simp add: deleted_lap_session_def mk_lap_def pick_drivers_def pick_fastest_def)
  have d: "get_telemetry_data deleted_lap_session =
       Inr ([\<lparr>Distance = 0, Speed = 1, Throttle = 0, Brake = False, nGear = 1, RPM = 0\<rparr>],
            [\<lparr>Distance = 0, Speed = 1, Throttle = 0, Brake = False, nGear = 1, RPM = 0\<rparr>],
            pick_drivers ''VER'' (laps deleted_lap_session),
            pick_drivers ''HAM'' (laps deleted_lap_session))"
    by (simp add: get_telemetry_data_def deleted_lap_session_def mk_lap_def pick_drivers_def
        pick_fastest_def call_get_telemetry_def lap_marker_def)
  have e: "Min (Option.these (LapTime ` set (pick_drivers ''VER'' (laps deleted_lap_session))))
     = 88200000000"
    by (simp add: deleted_lap_session_def mk_lap_def pick_drivers_def)
  have f: "get_telemetry_data unflagged_session
     = Inl (Exn ''AttributeError'' ''NoneType object has no attribute get_telemetry'')"
    by (simp add: get_telemetry_data_def unflagged_session_def mk_lap_def pick_drivers_def
        pick_fastest_def call_get_telemetry_def)
  from a b c d e f show ?thesis by simp
qed

section \<open>Traces of a figure\<close>

lemma data_add_trace: "data (add_trace t fig) = data fig @ [t]"
  by (simp add: add_trace_def)

lemma data_add_vrect: "data (add_vrect a b c d fig) = data fig"
  by (simp add: add_vrect_def)

lemma data_add_vline: "data (add_vline a b c d fig) = data fig"
  by (simp add: add_vline_def)

lemma data_update_layout: "data (update_layout lo fig) = data fig"
  by (simp add: update_layout_def)

lemma data_go_Figure: "data go_Figure = []"
  by (simp add: go_Figure_def)

lemmas data_simps = data_add_trace data_add_vrect data_add_vline data_update_layout data_go_Figure

lemma data_create_laptime_chart:
  "data (create_laptime_chart v h) =
     [laptime_trace (laps_clean v) ''Verstappen'' ''#E74C3C'' 3 6,
      laptime_trace (laps_clean h) ''Hamilton'' ''#3498DB'' 3 6]"
  by (simp add: create_laptime_chart_def laptime_figure_def data_simps)

lemma laps_clean_y:
  "map LapTime_s (laps_clean ls) = map (CNum \<circ> total_seconds) (List.map_filter LapTime ls)"
  by (induction ls)
     (auto simp: laps_clean_def set_LapTime_s_def notnull_LapTime_def List.map_filter_def
        dt_total_seconds_def)

lemma laps_clean_x:
  "map (CInt \<circ> LapNumber) (laps_clean ls) =
     map (CInt \<circ> LapNumber) (filter (\<lambda>l. LapTime l \<noteq> None) ls)"
  by (simp add: laps_clean_def set_LapTime_s_def notnull_LapTime_def comp_def)

section \<open>Lap-time chart\<close>

text \<open>
  Claim C2. \<^verbatim>\<open>create_laptime_chart\<close> plots, for each driver, exactly the laps whose
  lap time is not null, in table order: the x values are their lap numbers and the y values
  are their lap times in seconds, so no plotted value is a gap and each trace has as many
  x as y values. The conversion runs on the filtered table, which holds no null lap
  time; a duration of 1 minute 25.5 seconds converts to 85.5.
\<close>

theorem create_laptime_chart_drops_null:
  "(\<forall>t\<in>set (data (create_laptime_chart ver_laps ham_laps)).
       CNull \<notin> set (sc_y t) \<and> length (sc_x t) = length (sc_y t))
   \<and> map sc_x (data (create_laptime_chart ver_laps ham_laps)) =
       [map (CInt \<circ> LapNumber) (filter (\<lambda>l. LapTime l \<noteq> None) ver_laps),
        map (CInt \<circ> LapNumber) (filter (\<lambda>l. LapTime l \<noteq> None) ham_laps)]
   \<and> map sc_y (data (create_laptime_chart ver_laps ham_laps)) =
       [map (CNum \<circ> total_seconds) (List.map_filter LapTime ver_laps),
        map (CNum \<circ> total_seconds) (List.map_filter LapTime ham_laps)]
   \<and> (\<forall>l\<in>set (notnull_LapTime ver_laps) \<union> set (notnull_LapTime ham_laps). LapTime l \<noteq> None)
   \<and> laps_clean ver_laps = set_LapTime_s (notnull_LapTime ver_laps)
   \<and> laps_clean ham_laps = set_LapTime_s (notnull_LapTime ham_laps)
   \<and> total_seconds (60 * 1000000000 + 25500000000) = 171 / 2
   \<and> dt_total_seconds (Some (60 * 1000000000 + 25500000000)) = CNum (171 / 2)"
proof -
  have n: "\<forall>l\<in>set (notnull_LapTime ver_laps) \<union> set (notnull_LapTime ham_laps). LapTime l \<noteq> None"
    by (auto simp: notnull_LapTime_def)
  have lv: "laps_clean ver_laps = set_LapTime_s (notnull_LapTime ver_laps)"
    and lh: "laps_clean ham_laps = set_LapTime_s (notnull_LapTime ham_laps)"
    by (simp_all add: laps_clean_def)
  have y: "\<And>ls n c w m. sc_y (laptime_trace (laps_clean ls) n c w m)
      = map (CNum \<circ> total_seconds) (List.map_filter LapTime ls)"
    by (simp add: laptime_trace_def laps_clean_y)
  have x: "\<And>ls n c w m. sc_x (laptime_trace (laps_clean ls) n c w m)
      = map (CInt \<circ> LapNumber) (filter (\<lambda>l. LapTime l \<noteq> None) ls)"
    by (simp add: laptime_trace_def laps_clean_x)
  have len: "\<And>ls. length (List.map_filter LapTime ls) = length (filter (\<lambda>l. LapTime l \<noteq> None) ls)"
    by (simp add: List.map_filter_def)
  have s: "total_seconds (60 * 1000000000 + 25500000000) = 171 / 2"
    by (simp add: total_seconds_def)
  have d: "dt_total_seconds (Some (60 * 1000000000 + 25500000000)) = CNum (171 / 2)"
    by (simp add: dt_total_seconds_def total_seconds_def)
  have a: "\<forall>t\<in>set (data (create_laptime_chart ver_laps ham_laps)).
       CNull \<notin> set (sc_y t) \<and> length (sc_x t) = length (sc_y t)"
    by (auto simp: data_create_laptime_chart x y len)
  have b: "map sc_x (data (create_laptime_chart ver_laps ham_laps)) =
       [map (CInt \<circ> LapNumber) (filter (\<lambda>l. LapTime l \<noteq> None) ver_laps),
        map (CInt \<circ> LapNumber) (filter (\<lambda>l. LapTime l \<noteq> None) ham_laps)]"
    by (simp add: data_create_laptime_chart x)
  have c: "map sc_y (data (create_laptime_chart ver_laps ham_laps)) =
       [map (CNum \<circ> total_seconds) (List.map_filter LapTime ver_laps),
        map (CNum \<circ> total_seconds) (List.map_filter LapTime ham_laps)]"
    by (simp add: data_create_laptime_chart y)
  from a b c n lv lh s d show ?thesis by (intro conjI)
qed

text \<open>
  On the scenario table the chart has two points for Verstappen (laps 1 and 2) and three
  for Hamilton.
\<close>

theorem create_laptime_chart_drops_null_witness:
  "map sc_x (data (create_laptime_chart (pick_drivers ''VER'' (laps scenario_session))
                     (pick_drivers ''HAM'' (laps scenario_session)))) =
     [ [CInt 1, CInt 2], [CInt 1, CInt 2, CInt 3] ]
   \<and> map sc_y (data (create_laptime_chart (pick_drivers ''VER'' (laps scenario_session))
                     (pick_drivers ''HAM'' (laps scenario_session)))) =
     [ [CNum 90, CNum (441 / 5)], [CNum 91, CNum 87, CNum (173 / 2)] ]"
  using create_laptime_chart_drops_null
    [of "pick_drivers ''VER'' (laps scenario_session)" "pick_drivers ''HAM'' (laps scenario_session)"]
  by (simp add: scenario_session_def mk_lap_def pick_drivers_def List.map_filter_def total_seconds_def)

section \<open>Brake chart\<close>

lemma Brake_set_Brake: "length col = length tel \<Longrightarrow> map Brake (set_Brake tel col) = col"
  by (induction tel col rule: list_induct2') (auto simp: set_Brake_def)

lemma Distance_set_Brake: "length col = length tel \<Longrightarrow> map Distance (set_Brake tel col) = map Distance tel"
  by (induction tel col rule: list_induct2') (auto simp: set_Brake_def)

lemma data_create_brake_chart:
  "data (create_brake_chart v h) =
     [Scatter (map (CNum \<circ> Distance) v) (map CInt (astype_int (map Brake v)))
        ''lines'' ''Verstappen'' ''#9B59B6'' 3 None,
      Scatter (map (CNum \<circ> Distance) h) (map CInt (astype_int (map Brake h)))
        ''lines'' ''Hamilton'' ''#1ABC9C'' 3 None]"
proof -
  have l: "\<And>t. length (astype_int (map Brake t)) = length t" by (simp add: astype_int_def)
  have b: "\<And>t::telemetry. map (CInt \<circ> Brake) (set_Brake t (astype_int (map Brake t)))
      = map CInt (astype_int (map Brake t))"
    using Brake_set_Brake [OF l] by (metis map_map)
  have d: "\<And>t::telemetry. map (CNum \<circ> Distance) (set_Brake t (astype_int (map Brake t)))
      = map (CNum \<circ> Distance) t"
    using Distance_set_Brake [OF l] by (metis map_map)
  show ?thesis
    by (simp add: create_brake_chart_def brake_figure_def data_simps Let_def b d)
qed

text \<open>
  Claim C6. The cast of the brake column keeps length and order, maps true to 1 and false
  to 0 position by position, and sends [true, false, true] to [1, 0, 1]; the y values that
  \<^verbatim>\<open>create_brake_chart\<close> plots are the casts of the two brake columns, over the
  unchanged distances.
\<close>

theorem create_brake_chart_coercion:
  "length (astype_int bs) = length bs
   \<and> (\<forall>i<length bs. astype_int bs ! i = (if bs ! i then 1 else 0))
   \<and> astype_int [True, False, True] = [1, 0, 1]
   \<and> map sc_y (data (create_brake_chart ver_tel ham_tel)) =
       [map CInt (astype_int (map Brake ver_tel)), map CInt (astype_int (map Brake ham_tel))]
   \<and> map sc_x (data (create_brake_chart ver_tel ham_tel)) =
       [map (CNum \<circ> Distance) ver_tel, map (CNum \<circ> Distance) ham_tel]"
  by (simp add: data_create_brake_chart) (simp add: astype_int_def)

theorem create_brake_chart_coercion_witness:
  "astype_int [True, False, True] ! 0 = 1 \<and> astype_int [True, False, True] ! 1 = 0
   \<and> astype_int [True, False, True] ! 2 = 1 \<and> length (astype_int [True, False, True]) = 3"
  using create_brake_chart_coercion [of "[True, False, True]"]
  by (simp add: astype_int_def)

section \<open>Race position chart\<close>

text \<open>
  Claim C9. For every session, \<^verbatim>\<open>create_position_chart\<close> plots two traces, Verstappen's
  and Hamilton's: the x values of each are the driver's lap numbers and the y values are the
  driver's race positions on these laps, a position \<open>p\<close> as the number \<open>p\<close> and a missing
  position as a gap; the lap marker adds no trace. The layout sets the automatic range of
  this y axis to reversed, the charting library's inverted axis, on which the lower of two
  plotted positions is the higher on the page.
\<close>

theorem create_position_chart_reversed:
  "map sc_y (data (create_position_chart s)) =
     [map (Position_cell \<circ> Position) (pick_drivers ''VER'' (laps s)),
      map (Position_cell \<circ> Position) (pick_drivers ''HAM'' (laps s))]
   \<and> map sc_x (data (create_position_chart s)) =
     [map (CInt \<circ> LapNumber) (pick_drivers ''VER'' (laps s)),
      map (CInt \<circ> LapNumber) (pick_drivers ''HAM'' (laps s))]
   \<and> map sc_name (data (create_position_chart s)) = [''Verstappen'', ''Hamilton'']
   \<and> Position_cell (Some p) = CInt p
   \<and> Position_cell None = CNull
   \<and> map_option yaxis_autorange (fig_layout (create_position_chart s)) = Some (Some ''reversed'')
   \<and> map_option yaxis_title (fig_layout (create_position_chart s)) = Some ''Race Position''"
  by (simp add: create_position_chart_def position_figure_def data_simps Position_cell_def Let_def)
    (simp add: update_layout_def)

text \<open>
  On a table where the drivers swap places on lap 2, the plotted y values are the positions
  2, 1 and 1, 2, on a reversed axis.
\<close>

theorem create_position_chart_reversed_witness:
  "map sc_y (data (create_position_chart position_session)) =
     [ [CInt 2, CInt 1], [CInt 1, CInt 2] ]
   \<and> map sc_x (data (create_position_chart position_session)) =
     [ [CInt 1, CInt 2], [CInt 1, CInt 2] ]
   \<and> map_option yaxis_autorange (fig_layout (create_position_chart position_session))
     = Some (Some ''reversed'')"
  using create_position_chart_reversed [of position_session]
  by (simp add: position_session_def mk_lap_def pick_drivers_def Position_cell_def)

section \<open>Tyre strategy chart: the colour lookup on the stint table\<close>

lemma map_of_colors_None: "map_of colors c = None \<longleftrightarrow> c \<notin> {''Soft'', ''Medium'', ''Hard''}"
  by (auto simp: colors_def)

lemma add_stint_bars_known:
  "\<forall>row\<in>set rows. Tyre row \<in> {''Soft'', ''Medium'', ''Hard''} \<Longrightarrow>
   \<exists>fig'. add_stint_bars rows fig = Inr fig' \<and>
      data fig' = data fig @
        map (\<lambda>row. Bar [End row - Start row] [Stint row] (Start row) ''h''
                     (pit_Driver row @ '' - '' @ Tyre row) (the (map_of colors (Tyre row)))) rows
      \<and> overlays fig' = overlays fig"
proof (induction rows arbitrary: fig)
  case Nil
  then show ?case by simp
next
  case (Cons r rows)
  then obtain c where c: "map_of colors (Tyre r) = Some c"
    using map_of_colors_None [of "Tyre r"] by fastforce
  from Cons.prems have "\<forall>row\<in>set rows. Tyre row \<in> {''Soft'', ''Medium'', ''Hard''}" by simp
  from Cons.IH [OF this, of "add_trace
               (Bar [End r - Start r] [Stint r] (Start r) ''h''
                  (pit_Driver r @ '' - '' @ Tyre r) c) fig"] c
  show ?case by (auto simp: add_trace_def)
qed

section \<open>Tyre strategy chart: the stint table\<close>

lemma create_tyre_strategy_chart_data:
  "\<exists>fig. create_tyre_strategy_chart = Inr fig \<and>
     data fig = map (\<lambda>row. Bar [End row - Start row] [Stint row] (Start row) ''h''
                     (pit_Driver row @ '' - '' @ Tyre row) (the (map_of colors (Tyre row)))) pit_data"
proof -
  have "\<forall>row\<in>set pit_data. Tyre row \<in> {''Soft'', ''Medium'', ''Hard''}"
    by (simp add: pit_data_def)
  from add_stint_bars_known [OF this, of go_Figure]
  show ?thesis
    by (auto simp: create_tyre_strategy_chart_def tyre_strategy_chart_of_def go_Figure_def
        update_layout_def)
qed

lemma drivers_pit_data: "set (map pit_Driver pit_data) = {''HAM'', ''VER''}"
  by (auto simp: pit_data_def)

lemma ham_stints:
  "filter (\<lambda>r. pit_Driver r = ''HAM'') pit_data =
     [\<lparr>pit_Driver = ''HAM'', Tyre = ''Medium'', Start = 0, End = 14, Stint = 0\<rparr>,
      \<lparr>pit_Driver = ''HAM'', Tyre = ''Hard'', Start = 14, End = 58, Stint = 1\<rparr>]"
  by (simp add: pit_data_def)

lemma ver_stints:
  "filter (\<lambda>r. pit_Driver r = ''VER'') pit_data =
     [\<lparr>pit_Driver = ''VER'', Tyre = ''Medium'', Start = 0, End = 36, Stint = 2\<rparr>,
      \<lparr>pit_Driver = ''VER'', Tyre = ''Hard'', Start = 36, End = 53, Stint = 3\<rparr>,
      \<lparr>pit_Driver = ''VER'', Tyre = ''Soft'', Start = 53, End = 58, Stint = 4\<rparr>]"
  by (simp add: pit_data_def)

lemma ham_cover: "{0..<14} \<union> {14..<58} = {0..<58::int}" by auto
lemma ver_cover: "{0..<36} \<union> ({36..<53} \<union> {53..<58}) = {0..<58::int}" by auto

text \<open>
  Claim C4. In the stint table of \<^verbatim>\<open>create_tyre_strategy_chart\<close>, the stints of each
  driver, in table order, start at lap 0, end at lap 58, each end at the start of the next,
  are non-empty and pairwise disjoint as ranges [start, end), and together cover exactly
  the laps 0 to 58. The builder returns a figure whose i-th bar lies on row i (the record's
  sequence index), starts at the stint's start and is as long as the stint.
\<close>

theorem pit_data_stints_partition:
  "(\<forall>d\<in>set (map pit_Driver pit_data).
      Start (hd (filter (\<lambda>r. pit_Driver r = d) pit_data)) = 0 \<and>
      End (last (filter (\<lambda>r. pit_Driver r = d) pit_data)) = 58 \<and>
      map End (butlast (filter (\<lambda>r. pit_Driver r = d) pit_data)) =
        map Start (tl (filter (\<lambda>r. pit_Driver r = d) pit_data)) \<and>
      (\<forall>r\<in>set (filter (\<lambda>r. pit_Driver r = d) pit_data). Start r < End r) \<and>
      (\<forall>r\<in>set (filter (\<lambda>r. pit_Driver r = d) pit_data).
         \<forall>r'\<in>set (filter (\<lambda>r. pit_Driver r = d) pit_data).
           r \<noteq> r' \<longrightarrow> {Start r..<End r} \<inter> {Start r'..<End r'} = {}) \<and>
      (\<Union>r\<in>set (filter (\<lambda>r. pit_Driver r = d) pit_data). {Start r..<End r}) = {0..<58})
   \<and> (\<exists>fig. create_tyre_strategy_chart = Inr fig \<and>
         map bar_y (data fig) = map (\<lambda>i. [int i]) [0..<length pit_data] \<and>
         map bar_base (data fig) = map Start pit_data \<and>
         map bar_x (data fig) = map (\<lambda>r. [End r - Start r]) pit_data \<and>
         map bar_orientation (data fig) = replicate (length pit_data) ''h'')"
proof -
  have h: "Start (hd (filter (\<lambda>r. pit_Driver r = ''HAM'') pit_data)) = 0 \<and>
      End (last (filter (\<lambda>r. pit_Driver r = ''HAM'') pit_data)) = 58 \<and>
      map End (butlast (filter (\<lambda>r. pit_Driver r = ''HAM'') pit_data)) =
        map Start (tl (filter (\<lambda>r. pit_Driver r = ''HAM'') pit_data)) \<and>
      (\<forall>r\<in>set (filter (\<lambda>r. pit_Driver r = ''HAM'') pit_data). Start r < End r) \<and>
      (\<forall>r\<in>set (filter (\<lambda>r. pit_Driver r = ''HAM'') pit_data).
         \<forall>r'\<in>set (filter (\<lambda>r. pit_Driver r = ''HAM'') pit_data).
           r \<noteq> r' \<longrightarrow> {Start r..<End r} \<inter> {Start r'..<End r'} = {}) \<and>
      (\<Union>r\<in>set (filter (\<lambda>r. pit_Driver r = ''HAM'') pit_data). {Start r..<End r}) = {0..<58}"
    unfolding ham_stints by (simp add: ham_cover)
  have v: "Start (hd (filter (\<lambda>r. pit_Driver r = ''VER'') pit_data)) = 0 \<and>
      End (last (filter (\<lambda>r. pit_Driver r = ''VER'') pit_data)) = 58 \<and>
      map End (butlast (filter (\<lambda>r. pit_Driver r = ''VER'') pit_data)) =
        map Start (tl (filter (\<lambda>r. pit_Driver r = ''VER'') pit_data)) \<and>
      (\<forall>r\<in>set (filter (\<lambda>r. pit_Driver r = ''VER'') pit_data). Start r < End r) \<and>
      (\<forall>r\<in>set (filter (\<lambda>r. pit_Driver r = ''VER'') pit_data).
         \<forall>r'\<in>set (filter (\<lambda>r. pit_Driver r = ''VER'') pit_data).
           r \<noteq> r' \<longrightarrow> {Start r..<End r} \<inter> {Start r'..<End r'} = {}) \<and>
      (\<Union>r\<in>set (filter (\<lambda>r. pit_Driver r = ''VER'') pit_data). {Start r..<End r}) = {0..<58}"
    unfolding ver_stints by (simp add: ver_cover)
  obtain fig where fig: "create_tyre_strategy_chart = Inr fig"
    "data fig = map (\<lambda>row. Bar [End row - Start row] [Stint row] (Start row) ''h''
                     (pit_Driver row @ '' - '' @ Tyre row) (the (map_of colors (Tyre row)))) pit_data"
    using create_tyre_strategy_chart_data by blast
  have idx: "map (\<lambda>r. [Stint r]) pit_data = map (\<lambda>i. [int i]) [0..<length pit_data]"
    by (simp add: pit_data_def upt_rec)
  have f: "\<exists>fig. create_tyre_strategy_chart = Inr fig \<and>
         map bar_y (data fig) = map (\<lambda>i. [int i]) [0..<length pit_data] \<and>
         map bar_base (data fig) = map Start pit_data \<and>
         map bar_x (data fig) = map (\<lambda>r. [End r - Start r]) pit_data \<and>
         map bar_orientation (data fig) = replicate (length pit_data) ''h''"
  proof (intro exI conjI)
    show "create_tyre_strategy_chart = Inr fig" by (rule fig(1))
    show "map bar_y (data fig) = map (\<lambda>i. [int i]) [0..<length pit_data]"
      unfolding idx [symmetric] by (simp add: fig(2))
    show "map bar_base (data fig) = map Start pit_data" by (simp add: fig(2) comp_def)
    show "map bar_x (data fig) = map (\<lambda>r. [End r - Start r]) pit_data" by (simp add: fig(2))
    show "map bar_orientation (data fig) = replicate (length pit_data) ''h''"
      by (simp add: fig(2) comp_def map_replicate_const)
  qed
  have "\<And>P. P ''HAM'' \<Longrightarrow> P ''VER'' \<Longrightarrow> \<forall>d\<in>set (map pit_Driver pit_data). P d"
    unfolding drivers_pit_data by blast
  from this [OF h v] f show ?thesis by (rule conjI)
qed

text \<open>The theorem at Verstappen's three stints.\<close>

theorem pit_data_stints_partition_witness:
  "map (\<lambda>r. (Start r, End r)) (filter (\<lambda>r. pit_Driver r = ''VER'') pit_data)
     = [(0, 36), (36, 53), (53, 58)]
   \<and> Start (hd (filter (\<lambda>r. pit_Driver r = ''VER'') pit_data)) = 0
   \<and> End (last (filter (\<lambda>r. pit_Driver r = ''VER'') pit_data)) = 58
   \<and> map End (butlast (filter (\<lambda>r. pit_Driver r = ''VER'') pit_data)) =
        map Start (tl (filter (\<lambda>r. pit_Driver r = ''VER'') pit_data))
   \<and> (\<Union>r\<in>set (filter (\<lambda>r. pit_Driver r = ''VER'') pit_data). {Start r..<End r}) = {0..<58}"
proof -
  have "''VER'' \<in> set (map pit_Driver pit_data)" by (simp add: pit_data_def)
  with pit_data_stints_partition
  have "Start (hd (filter (\<lambda>r. pit_Driver r = ''VER'') pit_data)) = 0 \<and>
      End (last (filter (\<lambda>r. pit_Driver r = ''VER'') pit_data)) = 58 \<and>
      map End (butlast (filter (\<lambda>r. pit_Driver r = ''VER'') pit_data)) =
        map Start (tl (filter (\<lambda>r. pit_Driver r = ''VER'') pit_data)) \<and>
      (\<forall>r\<in>set (filter (\<lambda>r. pit_Driver r = ''VER'') pit_data). Start r < End r) \<and>
      (\<forall>r\<in>set (filter (\<lambda>r. pit_Driver r = ''VER'') pit_data).
         \<forall>r'\<in>set (filter (\<lambda>r. pit_Driver r = ''VER'') pit_data).
           r \<noteq> r' \<longrightarrow> {Start r..<End r} \<inter> {Start r'..<End r'} = {}) \<and>
      (\<Union>r\<in>set (filter (\<lambda>r. pit_Driver r = ''VER'') pit_data). {Start r..<End r}) = {0..<58}"
    by blast
  then have "Start (hd (filter (\<lambda>r. pit_Driver r = ''VER'') pit_data)) = 0"
    and "End (last (filter (\<lambda>r. pit_Driver r = ''VER'') pit_data)) = 58"
    and "map End (butlast (filter (\<lambda>r. pit_Driver r = ''VER'') pit_data)) =
        map Start (tl (filter (\<lambda>r. pit_Driver r = ''VER'') pit_data))"
    and "(\<Union>r\<in>set (filter (\<lambda>r. pit_Driver r = ''VER'') pit_data). {Start r..<End r}) = {0..<58}"
    by blast+
  moreover have "map (\<lambda>r. (Start r, End r)) (filter (\<lambda>r. pit_Driver r = ''VER'') pit_data)
     = [(0, 36), (36, 53), (53, 58)]"
    by (simp add: ver_stints)
  ultimately show ?thesis by blast
qed

section \<open>Final laps chart\<close>

lemma data_create_final_laps_chart:
  "data (create_final_laps_chart v h) =
     [laptime_trace (filter (\<lambda>l. 49 \<le> LapNumber l) (laps_clean v)) ''Verstappen'' ''#E74C3C'' 4 8,
      laptime_trace (filter (\<lambda>l. 49 \<le> LapNumber l) (laps_clean h)) ''Hamilton'' ''#3498DB'' 4 8]"
  by (simp add: create_final_laps_chart_def final_laps_figure_def data_simps Let_def)

lemma zip_map_filter:
  "\<forall>l. Q (f l) = P l \<Longrightarrow>
   zip (map f (filter P xs)) (map g (filter P xs)) =
     filter (\<lambda>(x, y). Q x) (zip (map f xs) (map g xs))"
  by (induction xs) auto

lemma points_slice:
  "zip (sc_x (laptime_trace (filter (\<lambda>l. 49 \<le> LapNumber l) ls) n c w m))
       (sc_y (laptime_trace (filter (\<lambda>l. 49 \<le> LapNumber l) ls) n c w m)) =
   filter (\<lambda>(x, y). \<exists>k\<ge>49. x = CInt k)
     (zip (sc_x (laptime_trace ls n' c' w' m')) (sc_y (laptime_trace ls n' c' w' m')))"
  unfolding laptime_trace_def trace.sel
  by (rule zip_map_filter) auto

lemma filter_upto_49: "filter (\<lambda>n. 49 \<le> n) [1..58] = [49..(58::int)]"
  by code_simp

lemma LapNumber_laps_clean:
  "map LapNumber (laps_clean ls) = map LapNumber (filter (\<lambda>l. LapTime l \<noteq> None) ls)"
  by (simp add: laps_clean_def set_LapTime_s_def notnull_LapTime_def comp_def)

lemma final_x:
  "sc_x (laptime_trace (filter (\<lambda>l. 49 \<le> LapNumber l) (laps_clean ls)) n c w m) =
     map CInt (filter (\<lambda>k. 49 \<le> k) (map LapNumber (filter (\<lambda>l. LapTime l \<noteq> None) ls)))"
proof -
  have "map (CInt \<circ> LapNumber) (filter (\<lambda>l. 49 \<le> LapNumber l) (laps_clean ls)) =
      map CInt (filter (\<lambda>k. 49 \<le> k) (map LapNumber (laps_clean ls)))"
    by (simp add: filter_map comp_def)
  then show ?thesis
    unfolding LapNumber_laps_clean by (simp add: laptime_trace_def)
qed

lemma final_x_all:
  assumes "map LapNumber ls = [1..58]" "\<forall>l\<in>set ls. LapTime l \<noteq> None"
  shows "sc_x (laptime_trace (filter (\<lambda>l. 49 \<le> LapNumber l) (laps_clean ls)) n c w m) =
     map CInt [49..58]"
proof -
  from assms(2) have "filter (\<lambda>l. LapTime l \<noteq> None) ls = ls" by (simp add: filter_id_conv)
  then show ?thesis by (simp add: final_x assms(1) filter_upto_49)
qed

lemma final_x_count:
  assumes "map LapNumber ls = [1..58]"
  shows "length (sc_x (laptime_trace (filter (\<lambda>l. 49 \<le> LapNumber l) (laps_clean ls)) n c w m))
     + length (filter (\<lambda>l. 49 \<le> LapNumber l \<and> LapTime l = None) ls) = 10"
proof -
  have "length (filter (\<lambda>k. 49 \<le> k) (map LapNumber ls)) = 10"
    unfolding assms filter_upto_49 by simp
  then have t: "length (filter (\<lambda>l. 49 \<le> LapNumber l) ls) = 10"
    by (simp add: filter_map comp_def)
  have "length (filter (\<lambda>l. 49 \<le> LapNumber l) ls) =
      length (filter (\<lambda>l. LapTime l \<noteq> None) (filter (\<lambda>l. 49 \<le> LapNumber l) ls))
    + length (filter (\<lambda>l. \<not> LapTime l \<noteq> None) (filter (\<lambda>l. 49 \<le> LapNumber l) ls))"
    by (rule sum_length_filter_compl [symmetric])
  with t have "length (filter (\<lambda>l. 49 \<le> LapNumber l \<and> LapTime l \<noteq> None) ls)
    + length (filter (\<lambda>l. 49 \<le> LapNumber l \<and> LapTime l = None) ls) = 10"
    by (simp add: conj_commute)
  moreover have "length (sc_x (laptime_trace (filter (\<lambda>l. 49 \<le> LapNumber l) (laps_clean ls)) n c w m))
    = length (filter (\<lambda>l. 49 \<le> LapNumber l \<and> LapTime l \<noteq> None) ls)"
    by (simp add: final_x filter_map comp_def conj_commute)
  ultimately show ?thesis by simp
qed

text \<open>
  Claim C5. The points of each trace of \<^verbatim>\<open>create_final_laps_chart\<close> are exactly the
  points of the same driver's trace of \<^verbatim>\<open>create_laptime_chart\<close> whose lap number is
  at least 49, in the same order and with the same seconds. For a driver with laps 1 to 58
  all timed, these are the ten laps 49 to 58; with some lap times null, the number of
  points and the number of untimed laps from 49 on add up to ten.
\<close>

theorem create_final_laps_chart_slice:
  "map (\<lambda>t. zip (sc_x t) (sc_y t)) (data (create_final_laps_chart ver_laps ham_laps)) =
     map (\<lambda>t. filter (\<lambda>(x, y). \<exists>k\<ge>49. x = CInt k) (zip (sc_x t) (sc_y t)))
       (data (create_laptime_chart ver_laps ham_laps))
   \<and> (map LapNumber ver_laps = [1..58] \<and> (\<forall>l\<in>set ver_laps. LapTime l \<noteq> None) \<longrightarrow>
        sc_x (data (create_final_laps_chart ver_laps ham_laps) ! 0) = map CInt [49..58])
   \<and> (map LapNumber ham_laps = [1..58] \<and> (\<forall>l\<in>set ham_laps. LapTime l \<noteq> None) \<longrightarrow>
        sc_x (data (create_final_laps_chart ver_laps ham_laps) ! 1) = map CInt [49..58])
   \<and> (map LapNumber ver_laps = [1..58] \<longrightarrow>
        length (sc_x (data (create_final_laps_chart ver_laps ham_laps) ! 0))
        + length (filter (\<lambda>l. 49 \<le> LapNumber l \<and> LapTime l = None) ver_laps) = 10)
   \<and> (map LapNumber ham_laps = [1..58] \<longrightarrow>
        length (sc_x (data (create_final_laps_chart ver_laps ham_laps) ! 1))
        + length (filter (\<lambda>l. 49 \<le> LapNumber l \<and> LapTime l = None) ham_laps) = 10)
   \<and> length [49..(58::int)] = 10"
proof -
  have a: "map (\<lambda>t. zip (sc_x t) (sc_y t)) (data (create_final_laps_chart ver_laps ham_laps)) =
     map (\<lambda>t. filter (\<lambda>(x, y). \<exists>k\<ge>49. x = CInt k) (zip (sc_x t) (sc_y t)))
       (data (create_laptime_chart ver_laps ham_laps))"
    unfolding data_create_final_laps_chart data_create_laptime_chart list.map
    by (intro conjI arg_cong2 [where f = Cons] points_slice refl)
  have b: "map LapNumber ver_laps = [1..58] \<and> (\<forall>l\<in>set ver_laps. LapTime l \<noteq> None) \<longrightarrow>
        sc_x (data (create_final_laps_chart ver_laps ham_laps) ! 0) = map CInt [49..58]"
    unfolding data_create_final_laps_chart using final_x_all [of ver_laps] by simp
  have c: "map LapNumber ham_laps = [1..58] \<and> (\<forall>l\<in>set ham_laps. LapTime l \<noteq> None) \<longrightarrow>
        sc_x (data (create_final_laps_chart ver_laps ham_laps) ! 1) = map CInt [49..58]"
    unfolding data_create_final_laps_chart using final_x_all [of ham_laps] by simp
  have d: "map LapNumber ver_laps = [1..58] \<longrightarrow>
        length (sc_x (data (create_final_laps_chart ver_laps ham_laps) ! 0))
        + length (filter (\<lambda>l. 49 \<le> LapNumber l \<and> LapTime l = None) ver_laps) = 10"
    unfolding data_create_final_laps_chart using final_x_count [of ver_laps] by simp
  have e: "map LapNumber ham_laps = [1..58] \<longrightarrow>
        length (sc_x (data (create_final_laps_chart ver_laps ham_laps) ! 1))
        + length (filter (\<lambda>l. 49 \<le> LapNumber l \<and> LapTime l = None) ham_laps) = 10"
    unfolding data_create_final_laps_chart using final_x_count [of ham_laps] by simp
  have f: "length [49..(58::int)] = 10" by simp
  from a b c d e f show ?thesis by (intro conjI)
qed

lemma LapNumber_race_laps: "map LapNumber (race_laps d g) = [1..58]"
  by (simp add: race_laps_def mk_lap_def comp_def)

lemma race_laps_timed: "\<forall>l\<in>set (race_laps d 0). LapTime l \<noteq> None"
  by (auto simp: race_laps_def mk_lap_def)

lemma filter_upto_50: "filter (\<lambda>n. 49 \<le> n \<and> n = 50) [1..(58::int)] = [50]"
  by code_simp

lemma race_laps_gap:
  "length (filter (\<lambda>l. 49 \<le> LapNumber l \<and> LapTime l = None) (race_laps d 50)) = 1"
proof -
  have "filter (\<lambda>l. 49 \<le> LapNumber l \<and> LapTime l = None) (race_laps d 50) =
      map (\<lambda>n. mk_lap d n (if n = 50 then None else Some 90000000000))
        (filter (\<lambda>n. 49 \<le> n \<and> n = 50) [1..58])"
    unfolding race_laps_def filter_map
    by (rule arg_cong [where f = "map _"], rule filter_cong) (auto simp: mk_lap_def)
  then show ?thesis by (simp add: filter_upto_50)
qed

text \<open>
  The theorem at a race where Verstappen has 58 timed laps and Hamilton's lap 50 has no
  time: ten points and nine points.
\<close>

theorem create_final_laps_chart_slice_witness:
  "sc_x (data (create_final_laps_chart (race_laps ''VER'' 0) (race_laps ''HAM'' 50)) ! 0)
     = map CInt [49..58]
   \<and> length (sc_x (data (create_final_laps_chart (race_laps ''VER'' 0) (race_laps ''HAM'' 50)) ! 1))
     = 9"
proof -
  note t = create_final_laps_chart_slice [of "race_laps ''VER'' 0" "race_laps ''HAM'' 50"]
  from t LapNumber_race_laps [of "''VER''" 0] race_laps_timed [of "''VER''"]
  have a: "sc_x (data (create_final_laps_chart (race_laps ''VER'' 0) (race_laps ''HAM'' 50)) ! 0)
     = map CInt [49..58]" by blast
  from t LapNumber_race_laps [of "''HAM''" 50]
  have "length (sc_x (data (create_final_laps_chart (race_laps ''VER'' 0) (race_laps ''HAM'' 50)) ! 1))
        + length (filter (\<lambda>l. 49 \<le> LapNumber l \<and> LapTime l = None) (race_laps ''HAM'' 50)) = 10"
    by blast
  then have "length (sc_x (data (create_final_laps_chart (race_laps ''VER'' 0) (race_laps ''HAM'' 50)) ! 1)) = 9"
    unfolding race_laps_gap by simp
  with a show ?thesis by (rule conjI)
qed

section \<open>The builders do not change their arguments\<close>

lemma assign_Brake_int_take:
  "assign_Brake_int r st = Inr st' \<Longrightarrow> n \<le> r \<Longrightarrow> take n st' = take n st"
  by (auto simp: assign_Brake_int_def split: frame.splits)

lemma assign_LapTime_s_take:
  "assign_LapTime_s r st = Inr st' \<Longrightarrow> n \<le> r \<Longrightarrow> take n st' = take n st"
  by (auto simp: assign_LapTime_s_def split: frame.splits)

lemma reads_telemetry_store: "snd (reads_telemetry build ver ham st) = st"
  by (simp add: reads_telemetry_def split: frame.splits)

lemma create_brake_chart_st_take:
  "take (length st) (snd (create_brake_chart_st ver ham st)) = st"
proof -
  let ?st2 = "st @ [st ! ver] @ [(st @ [st ! ver]) ! ham]"
  have t2: "take (length st) ?st2 = st" by simp
  have t3: "\<And>st3. assign_Brake_int (length st) ?st2 = Inr st3 \<Longrightarrow> take (length st) st3 = st"
    using assign_Brake_int_take [of "length st" ?st2 _ "length st"] t2 by simp
  have t4: "\<And>st3 st4. assign_Brake_int (length st) ?st2 = Inr st3 \<Longrightarrow>
      assign_Brake_int (Suc (length st)) st3 = Inr st4 \<Longrightarrow> take (length st) st4 = st"
    using assign_Brake_int_take [of "Suc (length st)" _ _ "length st"] t3 by simp
  show ?thesis
    using t2 t3 t4
    by (simp add: create_brake_chart_st_def new_frame_def split: sum.splits frame.splits)
qed

lemma cleaned_copies_take:
  "take (length st) (snd (cleaned_copies ver ham st)) = st"
proof -
  have t3: "\<And>v h st3. assign_LapTime_s (length st) (st @ [LapF v, LapF h]) = Inr st3 \<Longrightarrow>
      take (length st) st3 = st"
    using assign_LapTime_s_take [of "length st" _ _ "length st"] by fastforce
  have t4: "\<And>v h st3 st4. assign_LapTime_s (length st) (st @ [LapF v, LapF h]) = Inr st3 \<Longrightarrow>
      assign_LapTime_s (Suc (length st)) st3 = Inr st4 \<Longrightarrow> take (length st) st4 = st"
    using assign_LapTime_s_take [of "Suc (length st)" _ _ "length st"] t3 by simp
  show ?thesis
    using t3 t4
    by (simp add: cleaned_copies_def new_frame_def split: sum.splits)
qed

lemma reads_clean_take:
  "take (length st) (snd (reads_clean build ver ham st)) = st"
proof -
  obtain r st' where c: "cleaned_copies ver ham st = (r, st')"
    by (cases "cleaned_copies ver ham st")
  with cleaned_copies_take [of st ver ham] have "take (length st) st' = st" by simp
  then show ?thesis
    by (simp add: reads_clean_def c split: sum.splits prod.splits frame.splits)
qed

lemma create_brake_chart_st_value:
  assumes "ver < length st" "ham < length st" "st ! ver = TelF v" "st ! ham = TelF h"
  shows "fst (create_brake_chart_st ver ham st) = Inr (create_brake_chart v h)"
  using assms
  by (simp add: create_brake_chart_st_def new_frame_def assign_Brake_int_def nth_append
      create_brake_chart_def Let_def)

lemma create_laptime_chart_st_value:
  assumes "ver < length st" "ham < length st" "st ! ver = LapF v" "st ! ham = LapF h"
  shows "fst (create_laptime_chart_st ver ham st) = Inr (create_laptime_chart v h)"
  using assms
  by (simp add: create_laptime_chart_st_def reads_clean_def cleaned_copies_def new_frame_def
      assign_LapTime_s_def notnull_frame_def nth_append create_laptime_chart_def laps_clean_def Let_def)

lemma create_position_chart_st_store: "snd (create_position_chart_st r st) = st"
  by (simp add: create_position_chart_st_def split: frame.splits)

lemma take_nth_same: "take (length st) st' = st \<Longrightarrow> r < length st \<Longrightarrow> st' ! r = st ! r"
  by (metis nth_take)

text \<open>
  Claim C8. Whatever frames the two arguments refer to (also when both refer to the same
  one), after each builder the store still begins with the frames it held before: the
  objects passed in, and every other object that existed, are unchanged; the copies that
  \<^verbatim>\<open>create_brake_chart\<close> and the lap-time builders assign into are new objects
  behind them. On two telemetry series, and on two lap tables, the figure is the one the
  builder on values gives. The shaded region and the vertical line leave the traces of a
  figure as they are: the lap-time chart has exactly its two lap-time traces.
\<close>

theorem builders_leave_frames_unchanged:
  "(ver < length st \<and> ham < length st \<longrightarrow>
      (\<forall>build\<in>set [create_speed_chart_st, create_throttle_chart_st, create_brake_chart_st,
                      create_gear_chart_st, create_rpm_chart_st, create_laptime_chart_st,
                      create_final_laps_chart_st, (\<lambda>r _. create_position_chart_st r)].
         take (length st) (snd (build ver ham st)) = st \<and>
         snd (build ver ham st) ! ver = st ! ver \<and>
         snd (build ver ham st) ! ham = st ! ham))
   \<and> (ver < length st \<and> ham < length st \<and> st ! ver = TelF v \<and> st ! ham = TelF h \<longrightarrow>
        fst (create_brake_chart_st ver ham st) = Inr (create_brake_chart v h))
   \<and> (ver < length st \<and> ham < length st \<and> st ! ver = LapF vl \<and> st ! ham = LapF hl \<longrightarrow>
        fst (create_laptime_chart_st ver ham st) = Inr (create_laptime_chart vl hl))
   \<and> data (add_vrect x0 x1 txt col fig) = data fig
   \<and> data (add_vline x lc lt lp fig) = data fig
   \<and> data (create_laptime_chart vl hl) =
        [laptime_trace (laps_clean vl) ''Verstappen'' ''#E74C3C'' 3 6,
         laptime_trace (laps_clean hl) ''Hamilton'' ''#3498DB'' 3 6]"
proof -
  have t: "\<forall>build\<in>set [create_speed_chart_st, create_throttle_chart_st, create_brake_chart_st,
                      create_gear_chart_st, create_rpm_chart_st, create_laptime_chart_st,
                      create_final_laps_chart_st, (\<lambda>r _. create_position_chart_st r)].
         take (length st) (snd (build ver ham st)) = st"
    by (simp add: create_speed_chart_st_def create_throttle_chart_st_def create_gear_chart_st_def
        create_rpm_chart_st_def create_laptime_chart_st_def create_final_laps_chart_st_def
        reads_telemetry_store reads_clean_take create_brake_chart_st_take
        create_position_chart_st_store)
  have a: "ver < length st \<and> ham < length st \<longrightarrow>
      (\<forall>build\<in>set [create_speed_chart_st, create_throttle_chart_st, create_brake_chart_st,
                      create_gear_chart_st, create_rpm_chart_st, create_laptime_chart_st,
                      create_final_laps_chart_st, (\<lambda>r _. create_position_chart_st r)].
         take (length st) (snd (build ver ham st)) = st \<and>
         snd (build ver ham st) ! ver = st ! ver \<and>
         snd (build ver ham st) ! ham = st ! ham)"
    using t take_nth_same by blast
  have b: "ver < length st \<and> ham < length st \<and> st ! ver = TelF v \<and> st ! ham = TelF h \<longrightarrow>
        fst (create_brake_chart_st ver ham st) = Inr (create_brake_chart v h)"
    using create_brake_chart_st_value by blast
  have c: "ver < length st \<and> ham < length st \<and> st ! ver = LapF vl \<and> st ! ham = LapF hl \<longrightarrow>
        fst (create_laptime_chart_st ver ham st) = Inr (create_laptime_chart vl hl)"
    using create_laptime_chart_st_value by blast
  have d: "data (add_vrect x0 x1 txt col fig) = data fig" by (rule data_add_vrect)
  have e: "data (add_vline x lc lt lp fig) = data fig" by (rule data_add_vline)
  have f: "data (create_laptime_chart vl hl) =
        [laptime_trace (laps_clean vl) ''Verstappen'' ''#E74C3C'' 3 6,
         laptime_trace (laps_clean hl) ''Hamilton'' ''#3498DB'' 3 6]"
    by (rule data_create_laptime_chart)
  from a b c d e f show ?thesis by (intro conjI)
qed

text \<open>
  The theorem on the example store: the brake chart on two series and on one series passed
  twice, and the lap-time chart on the two lap tables.
\<close>

theorem builders_leave_frames_unchanged_witness:
  "take 4 (snd (create_brake_chart_st 0 1 example_store)) = example_store
   \<and> take 4 (snd (create_brake_chart_st 0 0 example_store)) = example_store
   \<and> take 4 (snd (create_laptime_chart_st 2 3 example_store)) = example_store
   \<and> length (snd (create_brake_chart_st 0 1 example_store)) = 6
   \<and> map sc_y (data (projr (fst (create_brake_chart_st 0 1 example_store))))
       = [ [CInt 0, CInt 1], [CInt 1] ]
   \<and> map sc_x (data (projr (fst (create_laptime_chart_st 2 3 example_store))))
       = [ [CInt 1, CInt 2], [CInt 1, CInt 2, CInt 3] ]"
proof -
  have l: "length example_store = 4" by (simp add: example_store_def)
  note t = builders_leave_frames_unchanged [of _ example_store]
  have a: "take 4 (snd (create_brake_chart_st 0 1 example_store)) = example_store"
    using t [of 0 1] l by simp
  have b: "take 4 (snd (create_brake_chart_st 0 0 example_store)) = example_store"
    using t [of 0 0] l by simp
  have c: "take 4 (snd (create_laptime_chart_st 2 3 example_store)) = example_store"
    using t [of 2 3] l by simp
  have d: "length (snd (create_brake_chart_st 0 1 example_store)) = 6"
    by (simp add: create_brake_chart_st_def new_frame_def assign_Brake_int_def example_store_def)
  have e: "map sc_y (data (projr (fst (create_brake_chart_st 0 1 example_store))))
       = [ [CInt 0, CInt 1], [CInt 1] ]"
    using t [of 0 1 "[\<lparr>Distance = 0, Speed = 250, Throttle = 100, Brake = False, nGear = 7, RPM = 11000\<rparr>,
            \<lparr>Distance = 10, Speed = 120, Throttle = 0, Brake = True, nGear = 3, RPM = 9000\<rparr>]"
          "[\<lparr>Distance = 0, Speed = 248, Throttle = 100, Brake = True, nGear = 7, RPM = 10900\<rparr>]"]
    by (simp add: example_store_def data_create_brake_chart astype_int_def)
  have f: "map sc_x (data (projr (fst (create_laptime_chart_st 2 3 example_store))))
       = [ [CInt 1, CInt 2], [CInt 1, CInt 2, CInt 3] ]"
    using t [of 2 3 _ _ "pick_drivers ''VER'' (laps scenario_session)"
          "pick_drivers ''HAM'' (laps scenario_session)"]
    by (simp add: example_store_def data_create_laptime_chart laptime_trace_def laps_clean_x)
      (simp add: scenario_session_def mk_lap_def pick_drivers_def)
  from a b c d e f show ?thesis by (intro conjI)
qed

section \<open>Loading failure\<close>

text \<open>
  Claim C10. When loading raises \<open>e\<close>, \<^verbatim>\<open>load_race_data\<close> shows its error and
  returns \<^verbatim>\<open>None\<close>; \<^verbatim>\<open>main\<close> then shows one error message of its own and returns
  normally, whatever the section: the page holds the header and the two messages, and no
  chart.
\<close>

theorem main_load_failure:
  "load_race_data (Inl e) = ([st_error (''Error loading data: '' @ exn_str e)], None)
   \<and> main (Inl e) sec =
       (header @ [st_error (''Error loading data: '' @ exn_str e)]
        @ [st_error ''Failed to load race data. Please check your internet connection and try again.''],
        None)
   \<and> (\<forall>fig. st_plotly_chart fig \<notin> set (fst (main (Inl e) sec)))"
  by (simp add: main_def load_race_data_def header_def)

section \<open>Failures of selectors in the dashboard\<close>

lemma main_selector_failure:
  "get_telemetry_data s = Inl e \<Longrightarrow> main (Inr s) sec = (header, Some e)"
  by (simp add: main_def load_race_data_def)

lemma main_final_moments:
  assumes "get_telemetry_data s = Inr r"
  shows "main (Inr s) Final_Moments =
    (header @
     [st_markdown ''The Championship Decider'',
      st_plotly_chart (create_position_chart s),
      st_markdown ''Lap 58 - The Overtake'',
      (case final_lap_figure s of
         Inl e \<Rightarrow> st_warning ''Final lap telemetry data not available for detailed analysis.''
       | Inr fig_final \<Rightarrow> st_plotly_chart fig_final),
      st_markdown ''The Decisive Moment'']
     @ footer, None)"
  using assms
  by (cases r) (simp add: main_def load_race_data_def show_section_def split: sum.splits)

text \<open>
  Claim C7, as amended. \<^verbatim>\<open>main\<close> has one handler, around the final-lap telemetry
  chart of the last section: when the selection succeeded, that section always renders
  in full and \<^verbatim>\<open>main\<close> returns, with a warning in place of the final-lap chart if
  building it failed. A failure of \<^verbatim>\<open>get_telemetry_data\<close>, which runs before the
  section is dispatched, is not caught: it leaves \<^verbatim>\<open>main\<close> with nothing but the header
  shown, whatever the section.
\<close>

theorem main_guards_final_lap_only:
  "(get_telemetry_data s = Inr r \<longrightarrow>
      main (Inr s) Final_Moments =
        (header @
         [st_markdown ''The Championship Decider'',
          st_plotly_chart (create_position_chart s),
          st_markdown ''Lap 58 - The Overtake'',
          (case final_lap_figure s of
             Inl e \<Rightarrow> st_warning ''Final lap telemetry data not available for detailed analysis.''
           | Inr fig_final \<Rightarrow> st_plotly_chart fig_final),
          st_markdown ''The Decisive Moment'']
         @ footer, None))
   \<and> (get_telemetry_data s = Inl e \<longrightarrow> main (Inr s) sec = (header, Some e))"
  using main_final_moments main_selector_failure by blast

text \<open>
  The theorem on the scenario table, which has no lap 58, and on a table without a timed
  lap for Verstappen.
\<close>

theorem main_guards_final_lap_only_witness:
  "final_lap_figure scenario_session
     = Inl (Exn ''IndexError'' ''single positional indexer is out-of-bounds'')
   \<and> main (Inr scenario_session) Final_Moments =
        (header @
         [st_markdown ''The Championship Decider'',
          st_plotly_chart (create_position_chart scenario_session),
          st_markdown ''Lap 58 - The Overtake'',
          st_warning ''Final lap telemetry data not available for detailed analysis.'',
          st_markdown ''The Decisive Moment'']
         @ footer, None)
   \<and> main (Inr untimed_session) Race_Pace =
        (header, Some (Exn ''AttributeError'' ''NoneType object has no attribute get_telemetry''))"
proof -
  have f: "final_lap_figure scenario_session
     = Inl (Exn ''IndexError'' ''single positional indexer is out-of-bounds'')"
    by (simp add: final_lap_figure_def scenario_session_def mk_lap_def pick_drivers_def iloc0_def)
  have g: "\<exists>r. get_telemetry_data scenario_session = Inr r"
    by (simp add: scenario_defs)
  have u: "get_telemetry_data untimed_session
     = Inl (Exn ''AttributeError'' ''NoneType object has no attribute get_telemetry'')"
    by (simp add: scenario_defs)
  from g obtain r where r: "get_telemetry_data scenario_session = Inr r" by blast
  from main_guards_final_lap_only [of scenario_session r] r f
  have a: "main (Inr scenario_session) Final_Moments =
        (header @
         [st_markdown ''The Championship Decider'',
          st_plotly_chart (create_position_chart scenario_session),
          st_markdown ''Lap 58 - The Overtake'',
          st_warning ''Final lap telemetry data not available for detailed analysis.'',
          st_markdown ''The Decisive Moment'']
         @ footer, None)"
    by simp
  from main_guards_final_lap_only [of untimed_session _ _ Race_Pace] u
  have b: "main (Inr untimed_session) Race_Pace =
        (header, Some (Exn ''AttributeError'' ''NoneType object has no attribute get_telemetry''))"
    by blast
  from f a b show ?thesis by (intro conjI)
qed

text \<open>
  The claim as stated fails: with an empty lap table the selection fails, and the
  overview, which needs no telemetry, is not rendered; the exception leaves
  \<^verbatim>\<open>main\<close>.
\<close>

theorem main_selector_failure_counterexample:
  "main (Inr empty_session) Overview =
     (header, Some (Exn ''AttributeError'' ''NoneType object has no attribute get_telemetry''))
   \<and> st_markdown ''Race Overview'' \<notin> set header"
  by (simp add: main_def load_race_data_def get_telemetry_data_def empty_session_def
      pick_drivers_def pick_fastest_def call_get_telemetry_def header_def)

end
